theory Spec2Isabelle
  imports Complex_Main
begin

section \<open>Python values, exceptions and dictionaries\<close>

text \<open>
  The agent runtime manager of intentkit (\<^verbatim>\<open>app/core/engine.py\<close>), the skill-data models it
  purges (\<^verbatim>\<open>models/skill.py\<close>) and the Enso token tool (\<^verbatim>\<open>skills/enso/tokens.py\<close>) are
  embedded as HOL functions. Exceptions are values of \<open>exn\<close>; a function that can raise
  returns \<open>exn + 'a\<close> (\<open>Inl\<close> the exception), paired with the state it leaves behind
  where it has effects. A character is a code point below 256.
\<close>

datatype exn =
    HTTPException nat string
  | NoResultFound
  | SQLAlchemyError string
  | UnboundLocalError
  | AttributeError
  | IndexError
  | KeyError string
  | OtherException string

text \<open>Loosely typed values: keyword arguments, JSON configuration, request parameters.\<close>

datatype pyval = PNone | PInt int | PStr string | PList "string list"

fun truthy :: "pyval \<Rightarrow> bool" where
  "truthy PNone = False"
| "truthy (PInt i) = (i \<noteq> 0)"
| "truthy (PStr s) = (s \<noteq> [])"
| "truthy (PList xs) = (xs \<noteq> [])"

text \<open>Truthiness of an optional string and of an optional list (\<open>None\<close> and empty are false).\<close>

definition truthy_str :: "string option \<Rightarrow> bool" where
  "truthy_str s = (case s of None \<Rightarrow> False | Some x \<Rightarrow> x \<noteq> [])"

definition truthy_list :: "'a list option \<Rightarrow> bool" where
  "truthy_list xs = (case xs of None \<Rightarrow> False | Some ys \<Rightarrow> ys \<noteq> [])"

text \<open>
  A Python \<open>dict\<close> keeps its keys in insertion order; assigning to a key that is present
  replaces the value in place, assigning to a new key appends it.
\<close>

type_synonym ('k, 'v) dict = "('k \<times> 'v) list"

fun dict_setitem :: "('k, 'v) dict \<Rightarrow> 'k \<Rightarrow> 'v \<Rightarrow> ('k, 'v) dict" where
  "dict_setitem [] k v = [(k, v)]"
| "dict_setitem ((k', v') # d) k v =
     (if k' = k then (k, v) # d else (k', v') # dict_setitem d k v)"

definition dict_get :: "(string, pyval) dict \<Rightarrow> string \<Rightarrow> pyval" where
  "dict_get d k = (case map_of d k of None \<Rightarrow> PNone | Some v \<Rightarrow> v)"

definition dict_get_default :: "(string, pyval) dict \<Rightarrow> string \<Rightarrow> pyval \<Rightarrow> pyval" where
  "dict_get_default d k dflt = (case map_of d k of None \<Rightarrow> dflt | Some v \<Rightarrow> v)"

definition dict_values :: "('k, 'v) dict \<Rightarrow> 'v list" where
  "dict_values d = map snd d"

text \<open>String helpers: \<open>str.startswith\<close>, \<open>sep.join\<close>, \<open>str.replace\<close> of one character,
  \<open>str.strip\<close>.\<close>

definition startswith :: "string \<Rightarrow> string \<Rightarrow> bool" where
  "startswith s p = (take (length p) s = p)"

fun str_join :: "string \<Rightarrow> string list \<Rightarrow> string" where
  "str_join sep [] = []"
| "str_join sep [x] = x"
| "str_join sep (x # y # ys) = x @ sep @ str_join sep (y # ys)"

definition replace_char :: "char \<Rightarrow> string \<Rightarrow> string \<Rightarrow> string" where
  "replace_char c r s = concat (map (\<lambda>x. if x = c then r else [x]) s)"

definition is_space :: "char \<Rightarrow> bool" where
  "is_space c = (of_char c \<in> {9, 10, 11, 12, 13, 28, 29, 30, 31, 32, 133, 160 :: nat})"

definition strip :: "string \<Rightarrow> string" where
  "strip s = rev (dropWhile is_space (rev (dropWhile is_space s)))"

section \<open>The Enso token tool (skills/enso/tokens.py)\<close>

record UnderlyingTokenCompact =
  ut_address :: "string option"
  ut_type :: "string option"
  ut_name :: "string option"
  ut_symbol :: "string option"

text \<open>An item of the response's \<open>data\<close> list, restricted to the fields the tool keeps.
  \<open>TokenResponseCompact(**item)\<close> is the item itself: the record is already typed.\<close>

record TokenResponseCompact =
  tok_name :: "string option"
  tok_symbol :: "string option"
  tok_address :: "string option"
  tok_primaryAddress :: "string option"
  tok_type :: "string option"
  tok_apy :: "real option"
  tok_underlyingTokens :: "UnderlyingTokenCompact list option"

record EnsoGetTokensOutput =
  res :: "TokenResponseCompact list option"
  error :: "string option"

text \<open>What the body of the \<open>try\<close> block obtains: the items of
  \<open>response.json()["data"]\<close>, or the exception raised on the way, in the three classes the
  handlers distinguish (\<open>httpx.RequestError\<close>, \<open>httpx.HTTPStatusError\<close>, any other, such
  as a missing key or an item that \<open>TokenResponseCompact\<close> rejects), with its text.\<close>

datatype http_result =
    RequestError string
  | HTTPStatusError string
  | OtherError string
  | JsonData "TokenResponseCompact list"

text \<open>The tool instance: \<open>api_token\<close> and \<open>main_tokens\<close> of \<open>EnsoBaseTool\<close>, the constant
  \<open>base_url\<close> of \<^verbatim>\<open>skills.enso.base\<close>, and the HTTP client as a function of the URL, the
  headers and the parameters.\<close>

record EnsoGetTokens =
  api_token :: string
  main_tokens :: "string list"
  base_url :: string
  http_get :: "string \<Rightarrow> (string, string) dict \<Rightarrow> (string, pyval) dict \<Rightarrow> http_result"

definition run_params :: "(string, pyval) dict \<Rightarrow> (string, pyval) dict" where
  "run_params kwargs =
     (let params = [(''page'', PInt 1), (''includeMetadata'', PStr ''true'')];
          params = (if truthy (dict_get kwargs ''chain_id'')
                    then dict_setitem params ''chainId'' (dict_get kwargs ''chain_id'')
                    else params);
          params = (if truthy (dict_get kwargs ''protocol_slug'')
                    then dict_setitem params ''protocolSlug'' (dict_get kwargs ''protocol_slug'')
                    else params);
          params = (if truthy (dict_get kwargs ''token_type'')
                    then dict_setitem params ''type'' (dict_get kwargs ''token_type'')
                    else params);
          params = (if truthy (dict_get kwargs ''underlying_tokens'')
                    then (case dict_get kwargs ''underlying_tokens'' of
                            PStr s \<Rightarrow> dict_setitem params ''underlyingTokens'' (PStr s)
                          | PList xs \<Rightarrow>
                              dict_setitem params ''underlyingTokens'' (PStr (str_join '','' xs))
                          | _ \<Rightarrow> params)
                    else params)
      in params)"

definition item_kept :: "EnsoGetTokens \<Rightarrow> TokenResponseCompact \<Rightarrow> bool" where
  "item_kept self item =
     ((case tok_apy item of None \<Rightarrow> False | Some a \<Rightarrow> a \<noteq> 0)
      \<or> (case tok_symbol item of None \<Rightarrow> False | Some s \<Rightarrow> s \<in> set (main_tokens self)))"

definition EnsoGetTokens_run :: "EnsoGetTokens \<Rightarrow> (string, pyval) dict \<Rightarrow> EnsoGetTokensOutput" where
  "EnsoGetTokens_run self kwargs =
     (let url = base_url self @ ''/api/v1/tokens'';
          headers = [(''accept'', ''application/json''),
                     (''Authorization'', ''Bearer '' @ api_token self)];
          params = run_params kwargs
      in case http_get self url headers params of
           JsonData items \<Rightarrow> \<lparr>res = Some (filter (item_kept self) items), error = None\<rparr>
         | RequestError m \<Rightarrow> \<lparr>res = None, error = Some (''Request error: '' @ m)\<rparr>
         | HTTPStatusError m \<Rightarrow> \<lparr>res = None, error = Some (''HTTP error: '' @ m)\<rparr>
         | OtherError m \<Rightarrow> \<lparr>res = None, error = Some m\<rparr>)"

text \<open>\<open>_arun\<close> receives the caller's keyword arguments and calls \<open>self._run()\<close> with none.\<close>

definition EnsoGetTokens_arun :: "EnsoGetTokens \<Rightarrow> (string, pyval) dict \<Rightarrow> EnsoGetTokensOutput" where
  "EnsoGetTokens_arun self kwargs = EnsoGetTokens_run self []"

section \<open>Agent configuration, runtime data and external collaborators\<close>

text \<open>
  \<^verbatim>\<open>models.agent\<close>, \<^verbatim>\<open>app.config.config\<close>, \<^verbatim>\<open>app.core.agent\<close>, \<^verbatim>\<open>app.core.graph\<close> and the skill
  packages are imported by the engine; the records below hold the fields the engine reads,
  and the functions it calls are fields of \<open>env\<close>.
\<close>

type_synonym datetime = int

record Agent =
  name :: "string option"
  model :: string
  prompt :: "string option"
  prompt_append :: "string option"
  frequency_penalty :: real
  presence_penalty :: real
  temperature :: real
  cdp_enabled :: bool
  cdp_network_id :: "string option"
  cdp_skills :: "string list option"
  cdp_wallet_data :: "string option"
  enso_enabled :: bool
  enso_skills :: "string list option"
  enso_config :: "(string, pyval) dict option"
  twitter_skills :: "string list option"
  twitter_config :: "(string, pyval) dict option"
  crestal_skills :: "string list option"
  common_skills :: "string list option"
  skill_sets :: "(string, (string, pyval) dict) dict option"
  updated_at :: datetime

record AgentData =
  data_cdp_wallet_data :: "string option"
  twitter_id :: "string option"
  twitter_username :: "string option"
  twitter_name :: "string option"

record Config =
  system_prompt :: "string option"
  openai_api_key :: string
  deepseek_api_key :: string
  cdp_api_key_name :: string
  cdp_api_key_private_key :: string
  rpc_base_mainnet :: string
  debug_checkpoint :: bool

text \<open>The keyword arguments of \<open>ChatOpenAI\<close>; \<open>llm_api_base = None\<close> is the default endpoint.\<close>

record ChatOpenAI =
  llm_model_name :: string
  llm_api_key :: string
  llm_api_base :: "string option"
  llm_frequency_penalty :: real
  llm_presence_penalty :: real
  llm_temperature :: real
  llm_timeout :: nat

text \<open>A tool: its name, and a body standing for the rest of the object.\<close>

record BaseTool =
  tool_name :: string
  tool_body :: string

text \<open>The \<open>values\<close> dictionary passed to \<open>CdpAgentkitWrapper\<close>; \<open>None\<close> in
  \<open>v_cdp_wallet_data\<close> is an absent key.\<close>

record cdp_values =
  v_cdp_api_key_name :: string
  v_cdp_api_key_private_key :: string
  v_network_id :: string
  v_cdp_wallet_data :: "string option"

text \<open>A constructed wrapper: its wallet, what \<open>export_wallet()\<close> returns, and the tools
  \<open>CdpToolkit.from_cdp_agentkit_wrapper(agentkit).get_tools()\<close> gives.\<close>

record CdpAgentkitWrapper =
  wallet :: string
  export_wallet :: string
  toolkit_tools :: "BaseTool list"

text \<open>The arguments \<open>create_agent\<close> compiles into a graph. \<open>graph_prompt\<close> is the
  \<open>prompt_array\<close> behind the state modifier; the checkpointer is the shared pool's saver.\<close>

record CompiledGraph =
  graph_aid :: string
  graph_llm :: ChatOpenAI
  graph_tools :: "BaseTool list"
  graph_prompt :: "(string \<times> string) list"
  graph_debug :: bool
  graph_input_token_limit :: nat

datatype log_record =
    LogInfo string
  | LogWarning exn
  | LogError exn
  | LogErrorText string exn

record AgentMessageInput =
  msg_text :: string
  msg_images :: "string list"

datatype content_part = TextPart string | ImageUrlPart string

text \<open>A streamed chunk is a dictionary; \<open>chunk_agent\<close> and \<open>chunk_tools\<close> are the contents
  of the messages under its keys \<open>"agent"\<close> and \<open>"tools"\<close> (\<open>None\<close>: key absent).\<close>

record chunk =
  chunk_agent :: "string list option"
  chunk_tools :: "string list option"

text \<open>
  The collaborators. Each function that resolves a capability may raise. \<open>aget_state\<close>
  gives the \<open>(type, content)\<close> of the messages of the thread's snapshot (\<open>None\<close> when the
  snapshot has no values or no \<open>"messages"\<close>); \<open>astream\<close> gives the chunks in arrival
  order, \<open>Inl\<close> where the stream raises. \<open>cost i j\<close> is the text of
  \<open>f"{t - last:.3f}"\<close> where \<open>t\<close> is the \<open>i\<close>-th reading of \<open>time.perf_counter()\<close> in the
  call and \<open>last\<close> the \<open>j\<close>-th.
\<close>

record env =
  config :: Config
  CdpAgentkitWrapper_new :: "cdp_values \<Rightarrow> exn + CdpAgentkitWrapper"
  get_enso_skill ::
    "string \<Rightarrow> pyval \<Rightarrow> pyval \<Rightarrow> string option \<Rightarrow> string \<Rightarrow> string \<Rightarrow> exn + BaseTool"
  TwitterClient_new :: "string \<Rightarrow> (string, pyval) dict \<Rightarrow> exn + string"
  get_twitter_skill :: "string \<Rightarrow> string \<Rightarrow> string \<Rightarrow> exn + BaseTool"
  get_crestal_skill :: "string \<Rightarrow> exn + BaseTool"
  get_common_skill :: "string \<Rightarrow> exn + BaseTool"
  get_skill_set :: "string \<Rightarrow> (string, pyval) dict \<Rightarrow> exn + BaseTool list"
  aget_state :: "CompiledGraph \<Rightarrow> string \<Rightarrow> exn + (string \<times> string) list option"
  astream :: "CompiledGraph \<Rightarrow> content_part list \<Rightarrow> string \<Rightarrow> (exn + chunk) list"
  cost :: "nat \<Rightarrow> nat \<Rightarrow> string"

text \<open>
  The mutable world: the two module-level dictionaries \<open>agents\<close> and \<open>agents_updated\<close>, the
  configuration store and the runtime-data store behind \<open>AgentStore\<close>, and the logger's
  output. \<open>store_error = Some m\<close> makes every read of the stores raise
  \<open>SQLAlchemyError\<close>. Two fields record calls and are read by no function:
  \<open>builds\<close> counts the calls of \<open>initialize_agent\<close>, \<open>set_data_calls\<close> lists the
  calls of \<open>agent_store.set_data\<close>.
\<close>

record world =
  agents :: "string \<rightharpoonup> CompiledGraph"
  agents_updated :: "string \<rightharpoonup> datetime"
  agent_configs :: "string \<rightharpoonup> Agent"
  agent_datas :: "string \<rightharpoonup> AgentData"
  store_error :: "string option"
  log :: "log_record list"
  builds :: nat
  set_data_calls :: "(string \<times> string) list"

definition logger :: "log_record \<Rightarrow> world \<Rightarrow> world" where
  "logger r w = w\<lparr>log := log w @ [r]\<rparr>"

text \<open>Modelled from the spec: \<open>getConfig(identity) -> AgentConfig | NotFound | StoreError\<close>
  and \<open>getData(identity) -> AgentRuntimeData\<close> of the Config Store interface
  (\<^verbatim>\<open>AgentStore\<close> is not among the sources); the two exceptions are those the engine
  handles, and \<open>get_data\<close> gives \<open>None\<close> for an identity without runtime data.\<close>

definition get_config :: "world \<Rightarrow> string \<Rightarrow> exn + Agent" where
  "get_config w aid =
     (case store_error w of
        Some m \<Rightarrow> Inl (SQLAlchemyError m)
      | None \<Rightarrow> (case agent_configs w aid of None \<Rightarrow> Inl NoResultFound | Some a \<Rightarrow> Inr a))"

definition get_data :: "world \<Rightarrow> string \<Rightarrow> exn + AgentData option" where
  "get_data w aid =
     (case store_error w of
        Some m \<Rightarrow> Inl (SQLAlchemyError m)
      | None \<Rightarrow> Inr (agent_datas w aid))"

text \<open>Modelled from the spec: \<open>setData(identity, partialFields)\<close> of the Config Store
  interface (\<^verbatim>\<open>AgentStore.set_data\<close> is not among the sources). It sets the given field of the
  identity's runtime data, creating the record when there is none.\<close>

definition set_data :: "string \<Rightarrow> string \<Rightarrow> world \<Rightarrow> world" where
  "set_data aid wallet_data w =
     w\<lparr>agent_datas := (agent_datas w)(aid \<mapsto>
          (case agent_datas w aid of
             None \<Rightarrow> \<lparr>data_cdp_wallet_data = Some wallet_data, twitter_id = None,
                      twitter_username = None, twitter_name = None\<rparr>
           | Some d \<Rightarrow> d\<lparr>data_cdp_wallet_data := Some wallet_data\<rparr>)),
       set_data_calls := set_data_calls w @ [(aid, wallet_data)]\<rparr>"

text \<open>\<open>Agent.get(aid)\<close> (\<^verbatim>\<open>models.agent\<close> is not among the sources): the configuration, or
  \<open>None\<close> for an unknown identity, which \<open>execute_agent\<close> tests.\<close>

definition Agent_get :: "world \<Rightarrow> string \<Rightarrow> exn + Agent option" where
  "Agent_get w aid =
     (case store_error w of
        Some m \<Rightarrow> Inl (SQLAlchemyError m)
      | None \<Rightarrow> Inr (agent_configs w aid))"

section \<open>The system prompt (agent_prompt)\<close>

definition default_cdp_prompt :: string where
  \<open>default_cdp_prompt =
     ''You are a helpful agent that can interact onchain using the Coinbase Developer Platform AgentKit. '' @
     ''You are empowered to interact onchain using your tools. If you ever need funds, you can request '' @
     ''them from the faucet if you are on network ID 'base-mainnet'. If not, you can provide your wallet '' @
     ''details and request funds from the user. Before executing your first action, get the wallet details '' @
     ''to see what network you're on. If there is a 5XX (internal) HTTP error code, ask the user to try '' @
     ''again later. If someone asks you to do something you can't do with your currently available tools, '' @
     ''you must say so, and encourage them to implement it themselves using the CDP SDK + Agentkit, '' @
     ''recommend they go to docs.cdp.coinbase.com for more information. Be concise and helpful with your '' @
     ''responses. Refrain from restating your tools' descriptions unless it is explicitly requested.''\<close>

definition cdp_wallet_guidance :: string where
  \<open>cdp_wallet_guidance =
     ''\<newline>'' @
     ''\<newline>'' @
     ''Wallet addresses are public information.  If someone asks for your default wallet, \<newline>'' @
     ''            current wallet, personal wallet, crypto wallet, or wallet public address, don't use any address in message history,\<newline>'' @
     ''            you must use the "get_wallet_details" tool to retrieve your wallet address every time.\<newline>'' @
     ''\<newline>''\<close>

definition enso_guidance :: string where
  \<open>enso_guidance =
     ''\<newline>'' @
     ''\<newline>'' @
     ''You are integrated with the Enso API. You can use enso_get_tokens to retrieve token information,\<newline>'' @
     ''        including APY, Protocol Slug, Symbol, Address, Decimals, and underlying tokens. When interacting with token amounts,\<newline>'' @
     ''        ensure to multiply input amounts by the token's decimal places and divide output amounts by the token's decimals. \<newline>'' @
     ''        Utilize enso_route_shortcut to find the best swap or deposit route. Set broadcast_request to True only when the \<newline>'' @
     ''        user explicitly requests a transaction broadcast. Insufficient funds or insufficient spending approval can cause \<newline>'' @
     ''        Route Shortcut broadcasts to fail. To avoid this, use the enso_broadcast_wallet_approve tool that requires explicit \<newline>'' @
     ''        user confirmation before broadcasting any approval transactions for security reasons.\<newline>'' @
     ''\<newline>''\<close>


definition opt_str :: "string option \<Rightarrow> string" where
  "opt_str s = (case s of None \<Rightarrow> [] | Some x \<Rightarrow> x)"

definition agent_prompt :: "Config \<Rightarrow> Agent \<Rightarrow> string" where
  "agent_prompt cfg agent =
     (let p = [];
          p = (if truthy_str (system_prompt cfg)
               then p @ opt_str (system_prompt cfg) @ ''\<newline>\<newline>'' else p);
          p = (if truthy_str (name agent)
               then p @ ''Your name is '' @ opt_str (name agent) @ ''.\<newline>\<newline>'' else p);
          p = (if truthy_str (prompt agent) then p @ opt_str (prompt agent)
               else if cdp_enabled agent then p @ default_cdp_prompt
               else p);
          p = (if cdp_enabled agent then p @ cdp_wallet_guidance else p);
          p = (if enso_enabled agent then p @ enso_guidance else p)
      in p)"

section \<open>The pipeline builder (initialize_agent)\<close>

text \<open>Lines 117-130: the two reads, the update time recorded at once, and the handlers.\<close>

fun store_failure :: "exn \<Rightarrow> world \<Rightarrow> (exn + 'a) \<times> world" where
  "store_failure NoResultFound w = (Inl (HTTPException 404 ''Agent not found''), w)"
| "store_failure (SQLAlchemyError m) w =
     (Inl (HTTPException 500 m), logger (LogError (SQLAlchemyError m)) w)"
| "store_failure e w = (Inl e, w)"

definition fetch_agent :: "string \<Rightarrow> world \<Rightarrow> (exn + Agent \<times> AgentData option) \<times> world" where
  "fetch_agent aid w =
     (case get_config w aid of
        Inl e \<Rightarrow> store_failure e w
      | Inr agent \<Rightarrow>
          (case get_data w aid of
             Inl e \<Rightarrow> store_failure e w
           | Inr agent_data \<Rightarrow>
               (Inr (agent, agent_data),
                w\<lparr>agents_updated := (agents_updated w)(aid \<mapsto> updated_at agent)\<rparr>)))"

text \<open>Lines 132-154: the model binding and the input token limit.\<close>

definition init_llm :: "Config \<Rightarrow> Agent \<Rightarrow> ChatOpenAI \<times> nat" where
  "init_llm cfg agent =
     (if startswith (model agent) ''deepseek''
      then (\<lparr>llm_model_name = model agent, llm_api_key = deepseek_api_key cfg,
             llm_api_base = Some ''https://api.deepseek.com'',
             llm_frequency_penalty = frequency_penalty agent,
             llm_presence_penalty = presence_penalty agent,
             llm_temperature = temperature agent, llm_timeout = 180\<rparr>, 60000)
      else (\<lparr>llm_model_name = model agent, llm_api_key = openai_api_key cfg,
             llm_api_base = None,
             llm_frequency_penalty = frequency_penalty agent,
             llm_presence_penalty = presence_penalty agent,
             llm_temperature = temperature agent, llm_timeout = 180\<rparr>, 120000))"

text \<open>Lines 163-189: the CDP wallet capability. \<open>cdp_network_id = None\<close> is an agent
  without that attribute, for which \<open>getattr\<close> gives its default.\<close>

definition has_wallet_data :: "AgentData option \<Rightarrow> bool" where
  "has_wallet_data agent_data =
     (case agent_data of None \<Rightarrow> False | Some d \<Rightarrow> truthy_str (data_cdp_wallet_data d))"

definition cdp_values_of :: "Config \<Rightarrow> Agent \<Rightarrow> AgentData option \<Rightarrow> cdp_values" where
  "cdp_values_of cfg agent agent_data =
     \<lparr>v_cdp_api_key_name = cdp_api_key_name cfg,
      v_cdp_api_key_private_key = cdp_api_key_private_key cfg,
      v_network_id = (case cdp_network_id agent of None \<Rightarrow> ''base-mainnet'' | Some n \<Rightarrow> n),
      v_cdp_wallet_data =
        (if has_wallet_data agent_data
         then (case agent_data of None \<Rightarrow> None | Some d \<Rightarrow> data_cdp_wallet_data d)
         else if truthy_str (cdp_wallet_data agent) then cdp_wallet_data agent
         else None)\<rparr>"

definition load_cdp ::
  "env \<Rightarrow> string \<Rightarrow> Agent \<Rightarrow> AgentData option \<Rightarrow> world \<Rightarrow>
   (exn + CdpAgentkitWrapper option \<times> BaseTool list) \<times> world" where
  "load_cdp e aid agent agent_data w =
     (if cdp_enabled agent then
        (case CdpAgentkitWrapper_new e (cdp_values_of (config e) agent agent_data) of
           Inl ex \<Rightarrow> (Inl ex, w)
         | Inr agentkit \<Rightarrow>
             (let w1 = (if \<not> has_wallet_data agent_data
                        then set_data aid (export_wallet agentkit) w else w);
                  cdp_tools = toolkit_tools agentkit;
                  cdp_tools = (if truthy_list (cdp_skills agent)
                               then filter (\<lambda>tool. tool_name tool \<in> set (the (cdp_skills agent)))
                                      cdp_tools
                               else cdp_tools)
              in (Inr (Some agentkit, cdp_tools), w1)))
      else (Inr (None, []), w))"

text \<open>Lines 191-207: the Enso skills, each resolved inside its own \<open>try\<close>. The local
  \<open>agentkit\<close> is bound only when the CDP capability is enabled; reading it unbound raises
  \<open>UnboundLocalError\<close> inside that \<open>try\<close>.\<close>

definition resolve_enso_skill ::
  "env \<Rightarrow> string \<Rightarrow> Agent \<Rightarrow> CdpAgentkitWrapper option \<Rightarrow> string \<Rightarrow> exn + BaseTool" where
  "resolve_enso_skill e aid agent agentkit skill =
     (case agentkit of
        None \<Rightarrow> Inl UnboundLocalError
      | Some k \<Rightarrow>
          get_enso_skill e skill
            (dict_get (the (enso_config agent)) ''api_token'')
            (dict_get_default (the (enso_config agent)) ''main_tokens'' (PList []))
            (Some (wallet k)) (rpc_base_mainnet (config e)) aid)"

fun enso_loop ::
  "env \<Rightarrow> string \<Rightarrow> Agent \<Rightarrow> CdpAgentkitWrapper option \<Rightarrow> string list \<Rightarrow>
   BaseTool list \<times> world \<Rightarrow> BaseTool list \<times> world" where
  "enso_loop e aid agent agentkit [] (tools, w) = (tools, w)"
| "enso_loop e aid agent agentkit (skill # skills) (tools, w) =
     (case resolve_enso_skill e aid agent agentkit skill of
        Inr s \<Rightarrow> enso_loop e aid agent agentkit skills (tools @ [s], w)
      | Inl ex \<Rightarrow> enso_loop e aid agent agentkit skills (tools, logger (LogWarning ex) w))"

definition load_enso ::
  "env \<Rightarrow> string \<Rightarrow> Agent \<Rightarrow> CdpAgentkitWrapper option \<Rightarrow>
   BaseTool list \<times> world \<Rightarrow> BaseTool list \<times> world" where
  "load_enso e aid agent agentkit tw =
     (if truthy_list (enso_skills agent) \<and> truthy_list (enso_config agent)
      then enso_loop e aid agent agentkit (the (enso_skills agent)) tw
      else tw)"

text \<open>A loop that appends what a resolver returns and has no \<open>try\<close>: the first exception
  leaves the loop.\<close>

fun resolve_all :: "('a \<Rightarrow> exn + 'b) \<Rightarrow> 'a list \<Rightarrow> exn + 'b list" where
  "resolve_all f [] = Inr []"
| "resolve_all f (x # xs) =
     (case f x of
        Inl ex \<Rightarrow> Inl ex
      | Inr y \<Rightarrow> (case resolve_all f xs of Inl ex \<Rightarrow> Inl ex | Inr ys \<Rightarrow> Inr (y # ys)))"

text \<open>Lines 208-227: the Twitter skills and the prompt about the agent's account, which
  reads \<open>agent_data\<close> without a guard; \<open>str\<close> of an unset field is \<open>None\<close>.\<close>

definition fmt_opt :: "string option \<Rightarrow> string" where
  "fmt_opt s = (case s of None \<Rightarrow> ''None'' | Some x \<Rightarrow> x)"

definition twitter_prompt_of :: "AgentData \<Rightarrow> string" where
  "twitter_prompt_of d =
     ''\<newline>\<newline>Your twitter id is '' @ fmt_opt (twitter_id d)
     @ '', never reply or retweet yourself. ''
     @ ''Your twitter username is '' @ fmt_opt (twitter_username d) @ ''. \<newline>''
     @ ''Your twitter name is '' @ fmt_opt (twitter_name d) @ ''. \<newline>''"

definition load_twitter ::
  "env \<Rightarrow> string \<Rightarrow> Agent \<Rightarrow> AgentData option \<Rightarrow> exn + BaseTool list \<times> string" where
  "load_twitter e aid agent agent_data =
     (if truthy_list (twitter_skills agent) then
        (let twitter_config = (if truthy_list (twitter_config agent)
                               then the (twitter_config agent) else [])
         in case TwitterClient_new e aid twitter_config of
              Inl ex \<Rightarrow> Inl ex
            | Inr twitter_client \<Rightarrow>
                (case resolve_all (\<lambda>skill. get_twitter_skill e skill twitter_client aid)
                        (the (twitter_skills agent)) of
                   Inl ex \<Rightarrow> Inl ex
                 | Inr ts \<Rightarrow>
                     (case agent_data of
                        None \<Rightarrow> Inl AttributeError
                      | Some d \<Rightarrow> Inr (ts, twitter_prompt_of d))))
      else Inr ([], []))"

text \<open>Lines 229-242: Crestal skills, common skills and skill sets.\<close>

definition load_crestal :: "env \<Rightarrow> Agent \<Rightarrow> exn + BaseTool list" where
  "load_crestal e agent =
     (if truthy_list (crestal_skills agent)
      then resolve_all (get_crestal_skill e) (the (crestal_skills agent)) else Inr [])"

definition load_common :: "env \<Rightarrow> Agent \<Rightarrow> exn + BaseTool list" where
  "load_common e agent =
     (if truthy_list (common_skills agent)
      then resolve_all (get_common_skill e) (the (common_skills agent)) else Inr [])"

definition load_skill_sets :: "env \<Rightarrow> Agent \<Rightarrow> exn + BaseTool list" where
  "load_skill_sets e agent =
     (if truthy_list (skill_sets agent)
      then (case resolve_all (\<lambda>(skill_set, opts). get_skill_set e skill_set opts)
                   (the (skill_sets agent)) of
              Inl ex \<Rightarrow> Inl ex
            | Inr tss \<Rightarrow> Inr (concat tss))
      else Inr [])"

text \<open>Lines 159-242 together: the accumulated tool list and the Twitter prompt.\<close>

definition load_skills ::
  "env \<Rightarrow> string \<Rightarrow> Agent \<Rightarrow> AgentData option \<Rightarrow> world \<Rightarrow>
   (exn + BaseTool list \<times> string) \<times> world" where
  "load_skills e aid agent agent_data w =
     (case load_cdp e aid agent agent_data w of
        (Inl ex, w1) \<Rightarrow> (Inl ex, w1)
      | (Inr (agentkit, cdp_tools), w1) \<Rightarrow>
          (case load_enso e aid agent agentkit ([] @ cdp_tools, w1) of
             (tools, w2) \<Rightarrow>
               (case load_twitter e aid agent agent_data of
                  Inl ex \<Rightarrow> (Inl ex, w2)
                | Inr (twitter_tools, twitter_prompt) \<Rightarrow>
                    (case load_crestal e agent of
                       Inl ex \<Rightarrow> (Inl ex, w2)
                     | Inr crestal_tools \<Rightarrow>
                         (case load_common e agent of
                            Inl ex \<Rightarrow> (Inl ex, w2)
                          | Inr common_tools \<Rightarrow>
                              (case load_skill_sets e agent of
                                 Inl ex \<Rightarrow> (Inl ex, w2)
                               | Inr set_tools \<Rightarrow>
                                   (Inr (tools @ twitter_tools @ crestal_tools @ common_tools
                                         @ set_tools, twitter_prompt), w2)))))))"

text \<open>Line 245: \<open>list({tool.name: tool for tool in tools}.values())\<close>.\<close>

definition put_tool :: "(string, BaseTool) dict \<Rightarrow> BaseTool \<Rightarrow> (string, BaseTool) dict" where
  "put_tool d tool = dict_setitem d (tool_name tool) tool"

definition tools_by_name :: "BaseTool list \<Rightarrow> (string, BaseTool) dict" where
  "tools_by_name tools = foldl put_tool [] tools"

definition dedup_tools :: "BaseTool list \<Rightarrow> BaseTool list" where
  "dedup_tools tools = dict_values (tools_by_name tools)"

text \<open>Lines 252-273: the prompt array.\<close>

definition escape_braces :: "string \<Rightarrow> string" where
  "escape_braces s = replace_char (CHR ''}'') ''}}'' (replace_char (CHR ''{'') ''{{'' s)"

definition prompt_array_of :: "Config \<Rightarrow> Agent \<Rightarrow> string \<Rightarrow> (string \<times> string) list" where
  "prompt_array_of cfg agent twitter_prompt =
     (let escaped_prompt = escape_braces (agent_prompt cfg agent);
          prompt_array = [(''system'', escaped_prompt), (''placeholder'', ''{messages}'')];
          prompt_array =
            (if twitter_prompt \<noteq> [] then
               (if startswith (model agent) ''deepseek'' then prompt_array
                else prompt_array @ [(''system'', twitter_prompt)])
             else prompt_array);
          prompt_array =
            (if truthy_str (prompt_append agent) then
               (let escaped_append = escape_braces (opt_str (prompt_append agent))
                in if startswith (model agent) ''deepseek''
                   then (''system'', escaped_append) # prompt_array
                   else prompt_array @ [(''system'', escaped_append)])
             else prompt_array)
      in prompt_array)"

text \<open>Lines 244-292: from the accumulated tools to the entry of \<open>agents\<close>. The model
  binding of lines 132-154 has no effect on the world and is evaluated here, where
  \<open>create_agent\<close> receives it.\<close>

definition loaded_tool :: "string \<Rightarrow> BaseTool \<Rightarrow> log_record" where
  "loaded_tool aid tool = LogInfo (''['' @ aid @ ''] loaded tool: '' @ tool_name tool)"

definition compile_agent ::
  "env \<Rightarrow> string \<Rightarrow> Agent \<Rightarrow> BaseTool list \<Rightarrow> string \<Rightarrow> world \<Rightarrow> world" where
  "compile_agent e aid agent tools0 twitter_prompt w =
     (let (llm, input_token_limit) = init_llm (config e) agent;
          tools = dedup_tools tools0;
          w1 = w\<lparr>log := log w @ map (loaded_tool aid) tools\<rparr>;
          prompt_array = prompt_array_of (config e) agent twitter_prompt;
          tools = (if startswith (model agent) ''deepseek'' then [] else tools)
      in w1\<lparr>agents := (agents w1)(aid \<mapsto>
            \<lparr>graph_aid = aid, graph_llm = llm, graph_tools = tools,
             graph_prompt = prompt_array, graph_debug = debug_checkpoint (config e),
             graph_input_token_limit = input_token_limit\<rparr>)\<rparr>)"

definition initialize_agent :: "env \<Rightarrow> string \<Rightarrow> world \<Rightarrow> (exn + unit) \<times> world" where
  "initialize_agent e aid w =
     (case fetch_agent aid (w\<lparr>builds := Suc (builds w)\<rparr>) of
        (Inl ex, w1) \<Rightarrow> (Inl ex, w1)
      | (Inr (agent, agent_data), w1) \<Rightarrow>
          (case load_skills e aid agent agent_data w1 of
             (Inl ex, w2) \<Rightarrow> (Inl ex, w2)
           | (Inr (tools, twitter_prompt), w2) \<Rightarrow>
               (Inr (), compile_agent e aid agent tools twitter_prompt w2)))"

text \<open>A sequence of builds of one identity, its configuration replaced by the next of the
  list before each build.\<close>

fun rebuilds :: "env \<Rightarrow> string \<Rightarrow> Agent list \<Rightarrow> world \<Rightarrow> world" where
  "rebuilds e aid [] w = w"
| "rebuilds e aid (a # as) w =
     rebuilds e aid as
       (snd (initialize_agent e aid (w\<lparr>agent_configs := (agent_configs w)(aid \<mapsto> a)\<rparr>)))"

section \<open>The execution engine (execute_agent)\<close>

text \<open>The formatted segments of the trace.\<close>

definition seg_thread :: "string \<Rightarrow> string" where
  "seg_thread thread_id' = ''Thread ID: '' @ thread_id' @ ''\<newline>\<newline>-------------------\<newline>''"

definition seg_input :: "AgentMessageInput \<Rightarrow> string" where
  "seg_input message =
     ''[ Input: ]\<newline>\<newline> '' @ msg_text message @ ''\<newline>''
     @ str_join ''\<newline>'' (msg_images message) @ ''\<newline>-------------------\<newline>''"

definition seg_start_cost :: "env \<Rightarrow> nat \<Rightarrow> nat \<Rightarrow> string" where
  "seg_start_cost e i j = ''\<newline>------------------- start cost: '' @ cost e i j @ '' seconds\<newline>''"

definition seg_agent_cost :: "env \<Rightarrow> nat \<Rightarrow> nat \<Rightarrow> string" where
  "seg_agent_cost e i j = ''\<newline>------------------- agent cost: '' @ cost e i j @ '' seconds\<newline>''"

definition seg_skill_cost :: "env \<Rightarrow> nat \<Rightarrow> nat \<Rightarrow> string" where
  "seg_skill_cost e i j = ''\<newline>------------------- skill cost: '' @ cost e i j @ '' seconds\<newline>''"

definition seg_total :: "env \<Rightarrow> nat \<Rightarrow> string" where
  "seg_total e i = ''Total time cost: '' @ cost e i 0 @ '' seconds''"

definition reinit_msg :: "string \<Rightarrow> log_record" where
  "reinit_msg aid = LogInfo (''Reinitializing agent '' @ aid @ '' due to updates'')"

definition debug_message :: "string \<times> string \<Rightarrow> string" where
  "debug_message m = (case m of (ty, c) \<Rightarrow> ''[ '' @ ty @ '' ]\<newline>'' @ c @ ''\<newline>\<newline>'')"

text \<open>Lines 333-338: the staleness check.\<close>

definition needs_reinit :: "string \<Rightarrow> Agent \<Rightarrow> world \<Rightarrow> bool" where
  "needs_reinit aid agent w =
     (agents w aid \<noteq> None
      \<and> (agents_updated w aid = None \<or> Some (updated_at agent) \<noteq> agents_updated w aid))"

text \<open>Lines 345-356: cold start or reinitialisation. The result holds \<open>resp_debug\<close>, the
  index of the next reading of the clock and the index of the reading held in \<open>last\<close>;
  reading 0 is \<open>start\<close>.\<close>

definition cold_start ::
  "env \<Rightarrow> string \<Rightarrow> bool \<Rightarrow> string list \<Rightarrow> world \<Rightarrow>
   (exn + string list \<times> nat \<times> nat) \<times> world" where
  "cold_start e aid reinit resp_debug w =
     (if agents w aid = None \<or> reinit then
        (let resp_debug = resp_debug @ [if agents w aid = None then ''[ Agent cold start ... ]''
                                         else ''[ Agent reinitialized ... ]'']
         in case initialize_agent e aid w of
              (Inl ex, w1) \<Rightarrow> (Inl ex, w1)
            | (Inr _, w1) \<Rightarrow>
                (Inr (resp_debug @ [seg_start_cost e 1 0], 3, 2), w1))
      else (Inr (resp_debug, 1, 0), w))"

text \<open>Lines 369-383: the debug prompt, inside its \<open>try\<close>.\<close>

definition debug_prompt ::
  "env \<Rightarrow> Agent \<Rightarrow> CompiledGraph \<Rightarrow> string \<Rightarrow> world \<Rightarrow> string \<times> world" where
  "debug_prompt e agent executor thread_id w =
     (case aget_state e executor thread_id of
        Inl ex \<Rightarrow> ([], logger (LogErrorText ''failed to get debug prompt: '' ex) w)
      | Inr snap \<Rightarrow>
          (''\<newline>===================\<newline>\<newline>[ system ]\<newline>''
           @ agent_prompt (config e) agent
           @ (case snap of None \<Rightarrow> [] | Some msgs \<Rightarrow> concat (map debug_message msgs))
           @ (if truthy_str (prompt_append agent)
              then ''[ system ]\<newline>'' @ opt_str (prompt_append agent) else []), w))"

text \<open>Lines 385-406: the loop over the streamed chunks, on
  \<open>(resp_debug, resp, next reading, last)\<close>. \<open>messages[0]\<close> of an empty list raises.\<close>

fun stream_loop ::
  "env \<Rightarrow> (exn + chunk) list \<Rightarrow> string list \<times> string list \<times> nat \<times> nat \<Rightarrow>
   exn + string list \<times> string list \<times> nat \<times> nat" where
  "stream_loop e [] st = Inr st"
| "stream_loop e (Inl ex # cs) st = Inl ex"
| "stream_loop e (Inr c # cs) (resp_debug, resp, n, last') =
     (case chunk_agent c of
        Some msgs \<Rightarrow>
          (case msgs of
             [] \<Rightarrow> Inl IndexError
           | v # _ \<Rightarrow>
               stream_loop e cs
                 ((if v \<noteq> [] then resp_debug @ [''[ Agent: ]\<newline>'', v]
                   else resp_debug @ [''[ Agent is thinking ... ]''])
                  @ [seg_agent_cost e n last'],
                  (if v \<noteq> [] then resp @ [v] else resp), Suc (Suc n), Suc n))
      | None \<Rightarrow>
          (case chunk_tools c of
             Some msgs \<Rightarrow>
               (case msgs of
                  [] \<Rightarrow> Inl IndexError
                | v # _ \<Rightarrow>
                    stream_loop e cs
                      (resp_debug @ [''[ Skill running ... ]\<newline>'', v,
                         seg_skill_cost e n last'],
                       resp, Suc (Suc n), Suc n))
           | None \<Rightarrow> stream_loop e cs (resp_debug, resp, n, last')))"

text \<open>Lines 358-414: from the executor to the returned list.\<close>

definition run_executor ::
  "env \<Rightarrow> Agent \<Rightarrow> CompiledGraph \<Rightarrow> AgentMessageInput \<Rightarrow> string \<Rightarrow> bool \<Rightarrow>
   string list \<times> nat \<times> nat \<Rightarrow> world \<Rightarrow> (exn + string list) \<times> world" where
  "run_executor e agent executor message thread_id debug st w =
     (case st of (resp_debug, n, last') \<Rightarrow>
        (let content = TextPart (msg_text message) # map ImageUrlPart (msg_images message);
             (resp_debug_append, w1) =
               (if debug then debug_prompt e agent executor thread_id w else ([], w))
         in case stream_loop e (astream e executor content thread_id)
                   (resp_debug, [], n, last') of
              Inl ex \<Rightarrow> (Inl ex, w1)
            | Inr (resp_debug, resp, n, last') \<Rightarrow>
                (let resp_debug = resp_debug @ [seg_total e n]
                 in if debug then (Inr (resp_debug @ [resp_debug_append]), w1)
                    else (Inr resp, w1))))"

definition execute_agent ::
  "env \<Rightarrow> string \<Rightarrow> AgentMessageInput \<Rightarrow> string \<Rightarrow> bool \<Rightarrow> world \<Rightarrow>
   (exn + string list) \<times> world" where
  "execute_agent e aid message thread_id debug w =
     (let resp_debug = [seg_thread thread_id]
      in case Agent_get w aid of
           Inl ex \<Rightarrow> (Inl ex, w)
         | Inr None \<Rightarrow> (Inl (HTTPException 404 ''Agent not found''), w)
         | Inr (Some agent) \<Rightarrow>
             (let reinit = needs_reinit aid agent w;
                  w0 = (if reinit then logger (reinit_msg aid) w else w);
                  resp_debug = resp_debug @ [seg_input message]
              in case cold_start e aid reinit resp_debug w0 of
                   (Inl ex, w1) \<Rightarrow> (Inl ex, w1)
                 | (Inr st, w1) \<Rightarrow>
                     (case agents w1 aid of
                        None \<Rightarrow> (Inl (KeyError aid), w1)
                      | Some executor \<Rightarrow>
                          run_executor e agent executor message thread_id debug st w1)))"

section \<open>Memory purge (clean_agent_memory and the clean_data methods)\<close>

record AgentSkillData =
  asd_agent_id :: string
  asd_skill :: string
  asd_key :: string
  asd_data :: string

record ThreadSkillData =
  tsd_thread_id :: string
  tsd_skill :: string
  tsd_key :: string
  tsd_agent_id :: string
  tsd_data :: string

text \<open>A row of one of the three checkpoint tables: its \<open>thread_id\<close> column and the rest.\<close>

record checkpoint_row =
  thread_id :: string
  payload :: string

text \<open>The committed contents of the five tables.\<close>

record database =
  agent_skill_data :: "AgentSkillData list"
  thread_skill_data :: "ThreadSkillData list"
  checkpoints :: "checkpoint_row list"
  checkpoint_writes :: "checkpoint_row list"
  checkpoint_blobs :: "checkpoint_row list"

text \<open>
  SQL's \<open>LIKE\<close>, pattern first: \<open>%\<close> matches any run of characters, \<open>_\<close> any one
  character, and a backslash (PostgreSQL's default escape character) makes the next
  pattern character literal. PostgreSQL rejects a pattern that ends in a lone backslash
  when the match reaches it; here such a pattern matches nothing.
\<close>

fun like_match :: "string \<Rightarrow> string \<Rightarrow> bool" where
  "like_match [] t = (t = [])"
| "like_match (p # ps) [] = (p = CHR ''%'' \<and> like_match ps [])"
| "like_match (p # ps) (c # cs) =
     (if p = CHR ''%'' then like_match ps (c # cs) \<or> like_match (p # ps) cs
      else if p = CHR ''_'' then like_match ps cs
      else if p = CHR 0x5C then
        (case ps of [] \<Rightarrow> False | q # qs \<Rightarrow> q = c \<and> like_match qs cs)
      else p = c \<and> like_match ps cs)"

text \<open>
  The statements a purge issues. \<open>fails\<close> says which of them raise \<open>SQLAlchemyError\<close>.
  \<^verbatim>\<open>models.db.get_session\<close> is not among the sources: whether a session that is left
  without \<open>commit()\<close> publishes its statements is the parameter \<open>commit_on_exit\<close>. A
  session is the effect of its statements on the committed tables; a session left by
  an exception publishes nothing. The logger's calls in \<open>clean_agent_memory\<close> are left
  out.
\<close>

datatype db_step =
    DeleteAgentSkillData
  | DeleteThreadSkillData
  | DeleteCheckpoints
  | DeleteCheckpointWrites
  | DeleteCheckpointBlobs
  | Commit

record db_env =
  fails :: "db_step \<Rightarrow> string option"
  commit_on_exit :: bool

type_synonym session = "database \<Rightarrow> database"

definition session_exit :: "db_env \<Rightarrow> session \<Rightarrow> database \<Rightarrow> database" where
  "session_exit de s d = (if commit_on_exit de then s d else d)"

definition AgentSkillData_clean_data ::
  "db_env \<Rightarrow> string \<Rightarrow> database \<Rightarrow> (exn + unit) \<times> database" where
  "AgentSkillData_clean_data de agent_id d =
     (case fails de DeleteAgentSkillData of
        Some m \<Rightarrow> (Inl (SQLAlchemyError m), d)
      | None \<Rightarrow>
          (Inr (), session_exit de
             (\<lambda>x. x\<lparr>agent_skill_data :=
                      filter (\<lambda>r. \<not> (asd_agent_id r = agent_id)) (agent_skill_data x)\<rparr>) d))"

definition ThreadSkillData_clean_data ::
  "db_env \<Rightarrow> string \<Rightarrow> string \<Rightarrow> database \<Rightarrow> (exn + unit) \<times> database" where
  "ThreadSkillData_clean_data de agent_id thread_id' d =
     (case fails de DeleteThreadSkillData of
        Some m \<Rightarrow> (Inl (SQLAlchemyError m), d)
      | None \<Rightarrow>
          (Inr (), session_exit de
             (\<lambda>x. x\<lparr>thread_skill_data :=
                      (if thread_id' \<noteq> []
                       then filter (\<lambda>r. \<not> (tsd_agent_id r = agent_id \<and> tsd_thread_id r = thread_id'))
                              (thread_skill_data x)
                       else filter (\<lambda>r. \<not> (tsd_agent_id r = agent_id))
                              (thread_skill_data x))\<rparr>) d))"

text \<open>\<open>DELETE FROM t WHERE thread_id like :value\<close>.\<close>

definition delete_like :: "string \<Rightarrow> checkpoint_row list \<Rightarrow> checkpoint_row list" where
  "delete_like v rows = filter (\<lambda>r. \<not> like_match v (thread_id r)) rows"

text \<open>Lines 454-478: the three deletions in the caller's session.\<close>

definition deletion_param :: "string \<Rightarrow> string \<Rightarrow> string" where
  "deletion_param agent_id thread_id' =
     (let thread_id' = strip thread_id';
          q_suffix = (if thread_id' \<noteq> [] then thread_id' else ''%'')
      in agent_id @ ''-'' @ q_suffix)"

definition delete_checkpoints :: "db_env \<Rightarrow> string \<Rightarrow> string \<Rightarrow> exn + session" where
  "delete_checkpoints de agent_id thread_id' =
     (let v = deletion_param agent_id thread_id'
      in case fails de DeleteCheckpoints of
           Some m \<Rightarrow> Inl (SQLAlchemyError m)
         | None \<Rightarrow>
             (case fails de DeleteCheckpointWrites of
                Some m \<Rightarrow> Inl (SQLAlchemyError m)
              | None \<Rightarrow>
                  (case fails de DeleteCheckpointBlobs of
                     Some m \<Rightarrow> Inl (SQLAlchemyError m)
                   | None \<Rightarrow>
                       Inr (\<lambda>x. x\<lparr>checkpoints := delete_like v (checkpoints x),
                                 checkpoint_writes := delete_like v (checkpoint_writes x),
                                 checkpoint_blobs := delete_like v (checkpoint_blobs x)\<rparr>))))"

text \<open>The two handlers: \<open>SQLAlchemyError\<close> becomes the 500 response, anything else is
  raised again.\<close>

fun reraise :: "exn \<Rightarrow> exn" where
  "reraise (SQLAlchemyError m) = HTTPException 500 m"
| "reraise ex = ex"

definition clean_skills_data ::
  "db_env \<Rightarrow> string \<Rightarrow> string \<Rightarrow> database \<Rightarrow> (exn + unit) \<times> database" where
  "clean_skills_data de agent_id thread_id' d =
     (case AgentSkillData_clean_data de agent_id d of
        (Inl ex, d1) \<Rightarrow> (Inl ex, d1)
      | (Inr _, d1) \<Rightarrow> ThreadSkillData_clean_data de agent_id thread_id' d1)"

definition clean_agent_memory ::
  "db_env \<Rightarrow> string \<Rightarrow> string \<Rightarrow> bool \<Rightarrow> bool \<Rightarrow> database \<Rightarrow> (exn + string) \<times> database" where
  "clean_agent_memory de agent_id thread_id' clean_agent clean_skills d =
     (if \<not> clean_skills \<and> \<not> clean_agent
      then (Inl (HTTPException 400
              ''at least one of skills data or agent memory should be true.''), d)
      else
        (case (if clean_skills then clean_skills_data de agent_id thread_id' d
               else (Inr (), d)) of
           (Inl ex, d1) \<Rightarrow> (Inl (reraise ex), d1)
         | (Inr _, d1) \<Rightarrow>
             (case (if clean_agent then delete_checkpoints de agent_id thread_id'
                    else Inr (\<lambda>x. x)) of
                Inl ex \<Rightarrow> (Inl (reraise ex), d1)
              | Inr s \<Rightarrow>
                  (case fails de Commit of
                     Some m \<Rightarrow> (Inl (reraise (SQLAlchemyError m)), d1)
                   | None \<Rightarrow> (Inr ''Agent data cleaned up successfully.'', s d1)))))"

text \<open>A string without the metacharacters of \<open>LIKE\<close>: \<open>%\<close>, \<open>_\<close> and the backslash.\<close>

definition no_wildcard :: "string \<Rightarrow> bool" where
  "no_wildcard s = (\<forall>c \<in> set s. c \<noteq> CHR ''%'' \<and> c \<noteq> CHR ''_'' \<and> c \<noteq> CHR 0x5C)"

text \<open>The key pattern in the spec's words: the exact key \<open>identity-threadId\<close> when a thread
  is given (here: when something is left of it after \<open>strip\<close>), else every key that
  starts with \<open>identity-\<close>.\<close>

definition purge_key :: "string \<Rightarrow> string \<Rightarrow> string \<Rightarrow> bool" where
  "purge_key agent_id tid k =
     (if strip tid \<noteq> [] then k = agent_id @ ''-'' @ strip tid
      else startswith k (agent_id @ ''-''))"

section \<open>A concrete deployment\<close>

text \<open>One configuration of the collaborators, on which the theorems below are instantiated.
  Every resolver refuses the skill \<open>bad\<close>, the CDP wrapper refuses the network
  \<open>bad-net\<close> and exports the wallet it was given or a new one, the snapshot of a
  thread cannot be read, and a run is a model turn without text, a tool turn and a
  model turn with the answer.\<close>

definition demo_config :: Config where
  "demo_config =
     \<lparr>system_prompt = None, openai_api_key = ''sk-openai'', deepseek_api_key = ''sk-deepseek'',
      cdp_api_key_name = ''cdp-key'', cdp_api_key_private_key = ''cdp-secret'',
      rpc_base_mainnet = ''https://rpc.example'', debug_checkpoint = False\<rparr>"

definition demo_resolver :: "string \<Rightarrow> string \<Rightarrow> exn + BaseTool" where
  "demo_resolver kind skill =
     (if skill = ''bad'' then Inl (OtherException (''unknown skill in '' @ kind))
      else Inr \<lparr>tool_name = skill, tool_body = kind\<rparr>)"

definition demo_env :: env where
  "demo_env =
     \<lparr>config = demo_config,
      CdpAgentkitWrapper_new =
        (\<lambda>v. if v_network_id v = ''bad-net'' then Inl (OtherException ''unsupported network'')
             else Inr \<lparr>wallet = ''wallet'',
                       export_wallet = ''wallet:'' @ (case v_cdp_wallet_data v of
                                                        None \<Rightarrow> ''new'' | Some d \<Rightarrow> d),
                       toolkit_tools = [\<lparr>tool_name = ''get_wallet_details'',
                                         tool_body = ''cdp''\<rparr>]\<rparr>),
      get_enso_skill = (\<lambda>skill api_token main_tokens wallet rpc aid. demo_resolver ''enso'' skill),
      TwitterClient_new = (\<lambda>aid cfg. Inr ''client''),
      get_twitter_skill = (\<lambda>skill client aid. demo_resolver ''twitter'' skill),
      get_crestal_skill = demo_resolver ''crestal'',
      get_common_skill = demo_resolver ''common'',
      get_skill_set = (\<lambda>skill_set opts.
                         if skill_set = ''bad'' then Inl (OtherException ''unknown skill set'')
                         else Inr [\<lparr>tool_name = skill_set, tool_body = ''set''\<rparr>]),
      aget_state = (\<lambda>g t. Inl (OtherException ''connection lost'')),
      astream = (\<lambda>g content t.
                   [Inr \<lparr>chunk_agent = Some [[]], chunk_tools = None\<rparr>,
                    Inr \<lparr>chunk_agent = None, chunk_tools = Some [''4'']\<rparr>,
                    Inr \<lparr>chunk_agent = Some [''four''], chunk_tools = None\<rparr>]),
      cost = (\<lambda>i j. ''0.001'')\<rparr>"

definition demo_agent :: Agent where
  "demo_agent =
     \<lparr>name = Some ''Ada'', model = ''gpt-4o'', prompt = Some ''Be brief.'', prompt_append = None,
      frequency_penalty = 0, presence_penalty = 0, temperature = 0,
      cdp_enabled = False, cdp_network_id = None, cdp_skills = None, cdp_wallet_data = None,
      enso_enabled = False, enso_skills = None, enso_config = None,
      twitter_skills = None, twitter_config = None,
      crestal_skills = None, common_skills = Some [''clock''], skill_sets = None,
      updated_at = 1\<rparr>"

text \<open>A world that knows one agent, \<open>a1\<close>, and has built nothing yet.\<close>

definition demo_world :: "Agent \<Rightarrow> world" where
  "demo_world a =
     \<lparr>agents = Map.empty, agents_updated = Map.empty,
      agent_configs = (\<lambda>k. if k = ''a1'' then Some a else None),
      agent_datas = Map.empty, store_error = None, log = [], builds = 0, set_data_calls = []\<rparr>"

definition demo_message :: AgentMessageInput where
  "demo_message = \<lparr>msg_text = ''2+2?'', msg_images = []\<rparr>"

text \<open>Runtime data of \<open>a1\<close> with a Twitter account, an agent with a Twitter skill and
  an append suffix under a given model selector, and the world that holds both.\<close>

definition demo_data :: AgentData where
  "demo_data = \<lparr>data_cdp_wallet_data = None, twitter_id = Some ''42'',
                 twitter_username = Some ''ada_bot'', twitter_name = Some ''Ada''\<rparr>"

definition demo_twitter_agent :: "string \<Rightarrow> Agent" where
  "demo_twitter_agent m =
     demo_agent\<lparr>model := m, prompt_append := Some ''Stay calm.'',
                 twitter_skills := Some [''post_tweet'']\<rparr>"

definition demo_twitter_world :: "string \<Rightarrow> world" where
  "demo_twitter_world m = (demo_world (demo_twitter_agent m))\<lparr>agent_datas := [''a1'' \<mapsto> demo_data]\<rparr>"

text \<open>A later version of the configuration, which adds the common skill \<open>search\<close>, and
  the same collaborators while the common-skill resolver is down. Then the worlds of one
  history: after a first call has built the pipeline of version 1, after the store has
  received version 2, and after a call made during the outage.\<close>

definition demo_agent_v2 :: Agent where
  "demo_agent_v2 = demo_agent\<lparr>common_skills := Some [''clock'', ''search''], updated_at := 2\<rparr>"

definition demo_outage :: env where
  "demo_outage = demo_env\<lparr>get_common_skill := (\<lambda>skill. Inl (OtherException ''skill service down''))\<rparr>"

definition world_built_v1 :: world where
  "world_built_v1 = snd (execute_agent demo_env ''a1'' demo_message ''t1'' False (demo_world demo_agent))"

definition world_config_v2 :: world where
  "world_config_v2 = world_built_v1\<lparr>agent_configs := (agent_configs world_built_v1)(''a1'' \<mapsto> demo_agent_v2)\<rparr>"

definition world_failed_rebuild :: world where
  "world_failed_rebuild = snd (execute_agent demo_outage ''a1'' demo_message ''t1'' False world_config_v2)"

text \<open>An Enso tool whose server answers the request with the two default parameters with
  three tokens (one of the main tokens, one with a yield of zero, one with a yield) and
  refuses every other request.\<close>

definition demo_token :: "string \<Rightarrow> real option \<Rightarrow> TokenResponseCompact" where
  "demo_token symbol apy =
     \<lparr>tok_name = None, tok_symbol = Some symbol, tok_address = None, tok_primaryAddress = None,
      tok_type = None, tok_apy = apy, tok_underlyingTokens = None\<rparr>"

definition demo_tool :: EnsoGetTokens where
  "demo_tool =
     \<lparr>api_token = ''k'', main_tokens = [''USDC''], base_url = ''https://api.enso.finance'',
      http_get = (\<lambda>url headers params.
         if url = ''https://api.enso.finance/api/v1/tokens''
            \<and> headers = [(''accept'', ''application/json''), (''Authorization'', ''Bearer k'')]
            \<and> params = [(''page'', PInt 1), (''includeMetadata'', PStr ''true'')]
         then JsonData [demo_token ''USDC'' None, demo_token ''XYZ'' (Some 0),
                        demo_token ''stETH'' (Some 3)]
         else RequestError ''unexpected request'')\<rparr>"

text \<open>Tables with rows of agent \<open>A\<close> on threads \<open>T1\<close> and \<open>T2\<close> and of agent \<open>B\<close> on
  thread \<open>T1\<close>.\<close>

definition demo_rows :: "checkpoint_row list" where
  "demo_rows = [\<lparr>thread_id = ''A-T1'', payload = ''p1''\<rparr>,
                \<lparr>thread_id = ''A-T2'', payload = ''p2''\<rparr>,
                \<lparr>thread_id = ''B-T1'', payload = ''p3''\<rparr>]"

definition demo_db :: database where
  "demo_db =
     \<lparr>agent_skill_data =
        [\<lparr>asd_agent_id = ''A'', asd_skill = ''twitter'', asd_key = ''k'', asd_data = ''1''\<rparr>,
         \<lparr>asd_agent_id = ''B'', asd_skill = ''twitter'', asd_key = ''k'', asd_data = ''2''\<rparr>],
      thread_skill_data =
        [\<lparr>tsd_thread_id = ''T1'', tsd_skill = ''enso'', tsd_key = ''k'', tsd_agent_id = ''A'',
          tsd_data = ''1''\<rparr>,
         \<lparr>tsd_thread_id = ''T2'', tsd_skill = ''enso'', tsd_key = ''k'', tsd_agent_id = ''A'',
          tsd_data = ''2''\<rparr>,
         \<lparr>tsd_thread_id = ''T1'', tsd_skill = ''enso'', tsd_key = ''k'', tsd_agent_id = ''B'',
          tsd_data = ''3''\<rparr>],
      checkpoints = demo_rows, checkpoint_writes = demo_rows, checkpoint_blobs = demo_rows\<rparr>"

section \<open>Properties of the tool deduplication\<close>

lemma map_of_dict_setitem: "map_of (dict_setitem d k v) = (map_of d)(k \<mapsto> v)"
  by (induction d k v rule: dict_setitem.induct) (auto simp: fun_eq_iff)

lemma keys_dict_setitem: "fst ` set (dict_setitem d k v) = insert k (fst ` set d)"
  by (induction d k v rule: dict_setitem.induct) auto

lemma distinct_dict_setitem:
  "distinct (map fst d) \<Longrightarrow> distinct (map fst (dict_setitem d k v))"
proof (induction d k v rule: dict_setitem.induct)
  case (1 k v)
  then show ?case by simp
next
  case (2 k' v' d k v)
  then show ?case using keys_dict_setitem [of d k v] by (auto simp: image_iff)
qed

lemma foldl_put_distinct:
  "distinct (map fst d) \<Longrightarrow> distinct (map fst (foldl put_tool d tools))"
  by (induction tools arbitrary: d) (simp_all add: put_tool_def distinct_dict_setitem)

lemma foldl_put_keys:
  "fst ` set (foldl put_tool d tools) = fst ` set d \<union> tool_name ` set tools"
  by (induction tools arbitrary: d) (auto simp: put_tool_def keys_dict_setitem)

text \<open>After the loop a name maps to the last tool of the list that carries it.\<close>

lemma foldl_put_lookup:
  "map_of (foldl put_tool d tools) n =
     (if filter (\<lambda>u. tool_name u = n) tools = [] then map_of d n
      else Some (last (filter (\<lambda>u. tool_name u = n) tools)))"
proof (induction tools arbitrary: d rule: rev_induct)
  case Nil
  then show ?case by simp
next
  case (snoc t ts)
  have "map_of (foldl put_tool d (ts @ [t])) n
        = ((map_of (foldl put_tool d ts))(tool_name t \<mapsto> t)) n"
    by (simp add: put_tool_def map_of_dict_setitem)
  then show ?case
    by (cases "tool_name t = n") (simp_all add: snoc)
qed

lemma tools_by_name_entry:
  assumes "(k, t) \<in> set (tools_by_name tools)"
  shows "tool_name t = k \<and> t = last (filter (\<lambda>u. tool_name u = k) tools)"
proof -
  have "distinct (map fst (tools_by_name tools))"
    unfolding tools_by_name_def by (rule foldl_put_distinct) simp
  with assms have look: "map_of (foldl put_tool [] tools) k = Some t"
    by (simp add: tools_by_name_def)
  have ne: "filter (\<lambda>u. tool_name u = k) tools \<noteq> []"
    using look foldl_put_lookup [of "[]" tools k] by (auto split: if_splits)
  then have t: "t = last (filter (\<lambda>u. tool_name u = k) tools)"
    using look foldl_put_lookup [of "[]" tools k] by simp
  from ne have "last (filter (\<lambda>u. tool_name u = k) tools)
                  \<in> set (filter (\<lambda>u. tool_name u = k) tools)"
    by (rule last_in_set)
  with t show ?thesis by simp
qed

lemma dedup_tools_names: "map tool_name (dedup_tools tools) = map fst (tools_by_name tools)"
proof -
  have "map (tool_name \<circ> snd) (tools_by_name tools) = map fst (tools_by_name tools)"
    using tools_by_name_entry [of _ _ tools] by auto
  then show ?thesis by (simp add: dedup_tools_def dict_values_def)
qed



section \<open>Properties of the Enso token tool\<close>

text \<open>
  Claim C10. For every tool instance and every keyword arguments, \<open>_arun\<close> sends one
  request: to \<open>base_url/api/v1/tokens\<close>, with the two headers and with the two default
  parameters \<open>page = 1\<close> and \<open>includeMetadata = "true"\<close> only, and returns what the
  handlers of \<open>_run\<close> make of the answer to that request. This is what \<open>_run\<close>
  returns when called with no arguments, and it does not depend on the caller's
  \<open>chain_id\<close>, \<open>protocol_slug\<close>, \<open>token_type\<close> or \<open>underlying_tokens\<close>.
\<close>

theorem arun_ignores_kwargs:
  "EnsoGetTokens_arun self kwargs =
     (case http_get self (base_url self @ ''/api/v1/tokens'')
             [(''accept'', ''application/json''),
              (''Authorization'', ''Bearer '' @ api_token self)]
             [(''page'', PInt 1), (''includeMetadata'', PStr ''true'')] of
        JsonData items \<Rightarrow> \<lparr>res = Some (filter (item_kept self) items), error = None\<rparr>
      | RequestError m \<Rightarrow> \<lparr>res = None, error = Some (''Request error: '' @ m)\<rparr>
      | HTTPStatusError m \<Rightarrow> \<lparr>res = None, error = Some (''HTTP error: '' @ m)\<rparr>
      | OtherError m \<Rightarrow> \<lparr>res = None, error = Some m\<rparr>)
   \<and> EnsoGetTokens_arun self kwargs = EnsoGetTokens_run self []
   \<and> EnsoGetTokens_arun self kwargs = EnsoGetTokens_arun self kwargs'"
  by (simp add: EnsoGetTokens_arun_def EnsoGetTokens_run_def run_params_def dict_get_def)

text \<open>On the tool of the concrete deployment, whose server answers the default request
  only: the asynchronous path gets the tokens although the caller asked for chain 10,
  the synchronous path sends the caller's chain and is refused.\<close>

theorem arun_ignores_kwargs_witness:
  "EnsoGetTokens_arun demo_tool [(''chain_id'', PInt 10), (''token_type'', PStr ''defi'')]
     = \<lparr>res = Some [demo_token ''USDC'' None, demo_token ''stETH'' (Some 3)], error = None\<rparr>
   \<and> EnsoGetTokens_run demo_tool [(''chain_id'', PInt 10), (''token_type'', PStr ''defi'')]
     = \<lparr>res = None, error = Some ''Request error: unexpected request''\<rparr>"
  using arun_ignores_kwargs
    [of demo_tool "[(''chain_id'', PInt 10), (''token_type'', PStr ''defi'')]"]
  by (simp add: demo_tool_def demo_token_def EnsoGetTokens_run_def run_params_def dict_get_def
        item_kept_def)

section \<open>Properties of the pipeline builder\<close>

lemma fetch_agent_ok:
  assumes "store_error w = None" "agent_configs w aid = Some agent"
  shows "fetch_agent aid w =
           (Inr (agent, agent_datas w aid),
            w\<lparr>agents_updated := (agents_updated w)(aid \<mapsto> updated_at agent)\<rparr>)"
  using assms by (simp add: fetch_agent_def get_config_def get_data_def)

lemma initialize_agent_ok:
  assumes "store_error w = None" "agent_configs w aid = Some agent"
  shows "initialize_agent e aid w =
           (case load_skills e aid agent (agent_datas w aid)
                   (w\<lparr>builds := Suc (builds w),
                      agents_updated := (agents_updated w)(aid \<mapsto> updated_at agent)\<rparr>) of
              (Inl ex, w2) \<Rightarrow> (Inl ex, w2)
            | (Inr (tools, twitter_prompt), w2) \<Rightarrow>
                (Inr (), compile_agent e aid agent tools twitter_prompt w2))"
  using assms fetch_agent_ok [of "w\<lparr>builds := Suc (builds w)\<rparr>" aid agent]
  by (simp add: initialize_agent_def)

lemma enso_loop_world:
  "agents (snd (enso_loop e aid agent kit skills (tools, w))) = agents w
   \<and> agents_updated (snd (enso_loop e aid agent kit skills (tools, w))) = agents_updated w
   \<and> builds (snd (enso_loop e aid agent kit skills (tools, w))) = builds w
   \<and> agent_datas (snd (enso_loop e aid agent kit skills (tools, w))) = agent_datas w
   \<and> agent_configs (snd (enso_loop e aid agent kit skills (tools, w))) = agent_configs w
   \<and> store_error (snd (enso_loop e aid agent kit skills (tools, w))) = store_error w
   \<and> set_data_calls (snd (enso_loop e aid agent kit skills (tools, w))) = set_data_calls w"
  by (induction skills arbitrary: tools w) (auto simp: logger_def split: sum.splits)

lemma load_cdp_world:
  assumes "load_cdp e aid agent agent_data w = (r, w1)"
  shows "agents w1 = agents w \<and> agents_updated w1 = agents_updated w \<and> builds w1 = builds w
         \<and> agent_configs w1 = agent_configs w \<and> store_error w1 = store_error w \<and> log w1 = log w"
  using assms by (auto simp: load_cdp_def set_data_def Let_def split: if_splits sum.splits)

lemma load_skills_world:
  assumes "load_skills e aid agent agent_data w = (r, w2)"
  shows "agents w2 = agents w \<and> agents_updated w2 = agents_updated w \<and> builds w2 = builds w
         \<and> agent_configs w2 = agent_configs w \<and> store_error w2 = store_error w"
proof -
  obtain rc w1 where c: "load_cdp e aid agent agent_data w = (rc, w1)" by force
  note w1 = load_cdp_world [OF c]
  show ?thesis
  proof (cases rc)
    case (Inl ex)
    with c assms w1 show ?thesis by (simp add: load_skills_def)
  next
    case (Inr p)
    obtain kit cdp_tools where p: "p = (kit, cdp_tools)" by force
    obtain tools w3 where l: "load_enso e aid agent kit (cdp_tools, w1) = (tools, w3)" by force
    have w3: "agents w3 = agents w1 \<and> agents_updated w3 = agents_updated w1 \<and> builds w3 = builds w1
         \<and> agent_configs w3 = agent_configs w1 \<and> store_error w3 = store_error w1"
      using l enso_loop_world [of e aid agent kit "the (enso_skills agent)" cdp_tools w1]
      by (cases "truthy_list (enso_skills agent) \<and> truthy_list (enso_config agent)")
         (simp_all add: load_enso_def)
    have "w2 = w3"
      using assms c Inr p l
      by (auto simp: load_skills_def split: sum.splits prod.splits)
    with w1 w3 show ?thesis by simp
  qed
qed

lemma compile_agent_fields:
  "agents (compile_agent e aid agent tools tp w) aid =
     Some \<lparr>graph_aid = aid, graph_llm = fst (init_llm (config e) agent),
           graph_tools = (if startswith (model agent) ''deepseek'' then [] else dedup_tools tools),
           graph_prompt = prompt_array_of (config e) agent tp,
           graph_debug = debug_checkpoint (config e),
           graph_input_token_limit = snd (init_llm (config e) agent)\<rparr>"
  by (simp add: compile_agent_def Let_def split: prod.splits)

lemma compile_agent_world:
  "agents (compile_agent e aid agent tools tp w) = (agents w)(aid := agents (compile_agent e aid agent tools tp w) aid)
   \<and> agents_updated (compile_agent e aid agent tools tp w) = agents_updated w
   \<and> builds (compile_agent e aid agent tools tp w) = builds w
   \<and> agent_datas (compile_agent e aid agent tools tp w) = agent_datas w
   \<and> agent_configs (compile_agent e aid agent tools tp w) = agent_configs w
   \<and> store_error (compile_agent e aid agent tools tp w) = store_error w
   \<and> set_data_calls (compile_agent e aid agent tools tp w) = set_data_calls w"
  by (simp add: compile_agent_def Let_def split: prod.splits)

lemma system_prompt_kept:
  "(''system'', escape_braces (agent_prompt cfg agent)) \<in> set (prompt_array_of cfg agent tp)"
  by (simp add: prompt_array_of_def Let_def)

lemma enso_loop_spec:
  "enso_loop e aid agent agentkit skills (tools, w) =
     (tools @ concat (map (\<lambda>skill. case resolve_enso_skill e aid agent agentkit skill of
                                      Inr s \<Rightarrow> [s] | Inl ex \<Rightarrow> []) skills),
      w\<lparr>log := log w @ concat (map (\<lambda>skill. case resolve_enso_skill e aid agent agentkit skill of
                                      Inr s \<Rightarrow> [] | Inl ex \<Rightarrow> [LogWarning ex]) skills)\<rparr>)"
  by (induction skills arbitrary: tools w) (auto simp: logger_def split: sum.splits)

lemma load_cdp_env: "load_cdp (e\<lparr>get_enso_skill := g\<rparr>) aid agent ad w = load_cdp e aid agent ad w"
  by (simp add: load_cdp_def)

lemma load_skills_outcome:
  "map_sum id (\<lambda>_. ()) (fst (load_skills (e\<lparr>get_enso_skill := g\<rparr>) aid agent ad w))
   = map_sum id (\<lambda>_. ()) (fst (load_skills e aid agent ad w))"
proof -
  let ?e = "e\<lparr>get_enso_skill := g\<rparr>"
  have tw: "load_twitter ?e aid agent ad = load_twitter e aid agent ad"
    by (simp add: load_twitter_def Let_def cong: sum.case_cong option.case_cong if_cong)
  have cr: "load_crestal ?e agent = load_crestal e agent"
    by (simp add: load_crestal_def)
  have co: "load_common ?e agent = load_common e agent"
    by (simp add: load_common_def)
  have ss: "load_skill_sets ?e agent = load_skill_sets e agent"
    by (simp add: load_skill_sets_def cong: sum.case_cong if_cong)
  show ?thesis
    unfolding load_skills_def load_cdp_env tw cr co ss
    by (simp split: prod.splits sum.splits)
qed

lemma fetch_agent_world:
  assumes "fetch_agent aid w = (r, w1)"
  shows "agents w1 = agents w \<and> builds w1 = builds w \<and> agent_datas w1 = agent_datas w
         \<and> agent_configs w1 = agent_configs w \<and> store_error w1 = store_error w
         \<and> set_data_calls w1 = set_data_calls w"
  using assms
  by (auto simp: fetch_agent_def get_config_def get_data_def logger_def
           split: option.splits)

lemma fetch_agent_Inr:
  assumes "fetch_agent aid w = (Inr (agent, ad), w1)"
  shows "store_error w = None \<and> agent_configs w aid = Some agent \<and> ad = agent_datas w aid
         \<and> w1 = w\<lparr>agents_updated := (agents_updated w)(aid \<mapsto> updated_at agent)\<rparr>"
  using assms
  by (auto simp: fetch_agent_def get_config_def get_data_def logger_def
           split: option.splits)

lemma load_cdp_data:
  assumes "load_cdp e aid agent ad w = (r, w1)"
  shows "(has_wallet_data ad \<longrightarrow> w1 = w)
       \<and> (agent_datas w1 = agent_datas w \<and> set_data_calls w1 = set_data_calls w
          \<or> \<not> has_wallet_data ad \<and> cdp_enabled agent
            \<and> (\<exists>kit. CdpAgentkitWrapper_new e (cdp_values_of (config e) agent ad) = Inr kit
                  \<and> r = Inr (Some kit, if truthy_list (cdp_skills agent)
                               then filter (\<lambda>tool. tool_name tool \<in> set (the (cdp_skills agent)))
                                      (toolkit_tools kit)
                               else toolkit_tools kit)
                  \<and> w1 = set_data aid (export_wallet kit) w))"
  using assms by (auto simp: load_cdp_def Let_def split: if_splits sum.splits)

lemma load_skills_data:
  assumes "load_skills e aid agent ad w = (r, w2)"
  shows "agent_datas w2 = agent_datas (snd (load_cdp e aid agent ad w))
       \<and> set_data_calls w2 = set_data_calls (snd (load_cdp e aid agent ad w))"
proof -
  obtain rc w1 where c: "load_cdp e aid agent ad w = (rc, w1)" by force
  show ?thesis
  proof (cases rc)
    case (Inl ex)
    with c assms show ?thesis by (simp add: load_skills_def)
  next
    case (Inr p)
    obtain kit cdp_tools where p: "p = (kit, cdp_tools)" by force
    obtain tools w3 where l: "load_enso e aid agent kit (cdp_tools, w1) = (tools, w3)" by force
    have w3: "agent_datas w3 = agent_datas w1 \<and> set_data_calls w3 = set_data_calls w1"
      using l enso_loop_world [of e aid agent kit "the (enso_skills agent)" cdp_tools w1]
      by (cases "truthy_list (enso_skills agent) \<and> truthy_list (enso_config agent)")
         (simp_all add: load_enso_def)
    have "w2 = w3"
      using assms c Inr p l
      by (auto simp: load_skills_def split: sum.splits prod.splits)
    with c w3 show ?thesis by simp
  qed
qed

text \<open>What a build does to the runtime-data store, whatever its outcome.\<close>

lemma initialize_agent_data:
  assumes "initialize_agent e aid w = (r, w')"
  shows "(agent_datas w' = agent_datas w \<and> set_data_calls w' = set_data_calls w)
       \<or> (\<exists>agent kit. store_error w = None \<and> agent_configs w aid = Some agent
             \<and> cdp_enabled agent \<and> \<not> has_wallet_data (agent_datas w aid)
             \<and> CdpAgentkitWrapper_new e (cdp_values_of (config e) agent (agent_datas w aid)) = Inr kit
             \<and> agent_datas w' = agent_datas (set_data aid (export_wallet kit) w)
             \<and> set_data_calls w' = set_data_calls w @ [(aid, export_wallet kit)])"
proof -
  let ?w = "w\<lparr>builds := Suc (builds w)\<rparr>"
  obtain rf w1 where f: "fetch_agent aid ?w = (rf, w1)" by force
  show ?thesis
  proof (cases rf)
    case (Inl ex)
    with f assms fetch_agent_world [OF f] show ?thesis
      by (simp add: initialize_agent_def)
  next
    case (Inr p)
    obtain agent ad where p: "p = (agent, ad)" by force
    from f Inr p have ok: "store_error w = None" "agent_configs w aid = Some agent"
        "ad = agent_datas w aid"
        and w1: "w1 = ?w\<lparr>agents_updated := (agents_updated ?w)(aid \<mapsto> updated_at agent)\<rparr>"
      using fetch_agent_Inr [of aid ?w agent ad w1] by simp_all
    obtain rs w2 where s: "load_skills e aid agent ad w1 = (rs, w2)" by force
    obtain rc wc where c: "load_cdp e aid agent ad w1 = (rc, wc)" by force
    have w2: "agent_datas w2 = agent_datas wc" "set_data_calls w2 = set_data_calls wc"
      using load_skills_data [OF s] c by simp_all
    have w': "agent_datas w' = agent_datas w2 \<and> set_data_calls w' = set_data_calls w2"
      using assms f Inr p s compile_agent_world
      by (auto simp: initialize_agent_def split: sum.splits prod.splits)
    from load_cdp_data [OF c] show ?thesis
    proof (elim conjE disjE exE)
      assume "agent_datas wc = agent_datas w1" "set_data_calls wc = set_data_calls w1"
      with w' w2 w1 show ?thesis by simp
    next
      fix kit
      assume "\<not> has_wallet_data ad" "cdp_enabled agent"
        "CdpAgentkitWrapper_new e (cdp_values_of (config e) agent ad) = Inr kit"
        "wc = set_data aid (export_wallet kit) w1"
      with w' w2 w1 ok show ?thesis
        by (auto simp: set_data_def)
    qed
  qed
qed

lemma has_wallet_data_set_data:
  "x \<noteq> [] \<Longrightarrow> has_wallet_data (agent_datas (set_data aid x w) aid)"
  by (simp add: set_data_def has_wallet_data_def truthy_str_def split: option.splits)

lemma initialize_agent_keeps_wallet:
  assumes "has_wallet_data (agent_datas w aid)"
  shows "agent_datas (snd (initialize_agent e aid w)) = agent_datas w
       \<and> set_data_calls (snd (initialize_agent e aid w)) = set_data_calls w"
  using initialize_agent_data [OF surjective_pairing, of e aid w] assms
  by auto

lemma rebuilds_keeps_wallet:
  assumes "has_wallet_data (agent_datas w aid)"
  shows "agent_datas (rebuilds e aid as w) = agent_datas w
       \<and> set_data_calls (rebuilds e aid as w) = set_data_calls w"
  using assms
proof (induction as arbitrary: w)
  case Nil
  then show ?case by simp
next
  case (Cons a as)
  let ?w = "w\<lparr>agent_configs := (agent_configs w)(aid \<mapsto> a)\<rparr>"
  have k: "agent_datas (snd (initialize_agent e aid ?w)) = agent_datas w"
          "set_data_calls (snd (initialize_agent e aid ?w)) = set_data_calls w"
    using initialize_agent_keeps_wallet [of ?w aid e] Cons.prems by simp_all
  with Cons.prems have "has_wallet_data (agent_datas (snd (initialize_agent e aid ?w)) aid)"
    by simp
  from Cons.IH [OF this] k show ?case by simp
qed

lemma rebuilds_at_most_one_write:
  assumes "\<And>v kit. CdpAgentkitWrapper_new e v = Inr kit \<Longrightarrow> export_wallet kit \<noteq> []"
  shows "length (set_data_calls (rebuilds e aid as w)) \<le> Suc (length (set_data_calls w))"
proof (induction as arbitrary: w)
  case Nil
  then show ?case by simp
next
  case (Cons a as)
  let ?w = "w\<lparr>agent_configs := (agent_configs w)(aid \<mapsto> a)\<rparr>"
  let ?w' = "snd (initialize_agent e aid ?w)"
  from initialize_agent_data [OF surjective_pairing, of e aid ?w]
  show ?case
  proof (elim disjE conjE exE)
    assume "set_data_calls ?w' = set_data_calls ?w"
    with Cons.IH [of ?w'] show ?thesis by simp
  next
    fix agent kit
    assume kit: "CdpAgentkitWrapper_new e (cdp_values_of (config e) agent (agent_datas ?w aid)) = Inr kit"
      and d: "agent_datas ?w' = agent_datas (set_data aid (export_wallet kit) ?w)"
      and c: "set_data_calls ?w' = set_data_calls ?w @ [(aid, export_wallet kit)]"
    from assms [OF kit] d have "has_wallet_data (agent_datas ?w' aid)"
      using has_wallet_data_set_data [of "export_wallet kit" aid ?w] by simp
    from rebuilds_keeps_wallet [OF this, of e as] c show ?thesis by simp
  qed
qed

lemma debug_prompt_world:
  "agents (snd (debug_prompt e agent g t w)) = agents w
   \<and> agents_updated (snd (debug_prompt e agent g t w)) = agents_updated w
   \<and> builds (snd (debug_prompt e agent g t w)) = builds w"
  by (simp add: debug_prompt_def logger_def split: sum.splits)

lemma run_executor_world:
  "agents (snd (run_executor e agent g m t dbg st w)) = agents w
   \<and> agents_updated (snd (run_executor e agent g m t dbg st w)) = agents_updated w
   \<and> builds (snd (run_executor e agent g m t dbg st w)) = builds w"
  using debug_prompt_world [of e agent g t w]
  by (auto simp: run_executor_def Let_def split: prod.splits sum.splits)

lemma initialize_agent_builds: "builds (snd (initialize_agent e aid w)) = Suc (builds w)"
proof -
  let ?w = "w\<lparr>builds := Suc (builds w)\<rparr>"
  obtain rf w1 where f: "fetch_agent aid ?w = (rf, w1)" by force
  have b1: "builds w1 = Suc (builds w)" using fetch_agent_world [OF f] by simp
  show ?thesis
  proof (cases rf)
    case (Inl ex)
    with f b1 show ?thesis by (simp add: initialize_agent_def)
  next
    case (Inr p)
    obtain agent ad where p: "p = (agent, ad)" by force
    obtain rs w2 where s: "load_skills e aid agent ad w1 = (rs, w2)" by force
    have b2: "builds w2 = Suc (builds w)" using load_skills_world [OF s] b1 by simp
    show ?thesis
      using f Inr p s b2 compile_agent_world
      by (auto simp: initialize_agent_def split: sum.splits prod.splits)
  qed
qed

lemma initialize_agent_installs:
  assumes "store_error w = None" "agent_configs w aid = Some agent"
    and "initialize_agent e aid w = (Inr u, w')"
  shows "\<exists>g. agents w' = (agents w)(aid \<mapsto> g)
          \<and> agents_updated w' = (agents_updated w)(aid \<mapsto> updated_at agent)
          \<and> graph_aid g = aid \<and> graph_llm g = fst (init_llm (config e) agent)
          \<and> graph_input_token_limit g = snd (init_llm (config e) agent)"
proof -
  let ?w1 = "w\<lparr>builds := Suc (builds w),
               agents_updated := (agents_updated w)(aid \<mapsto> updated_at agent)\<rparr>"
  from assms obtain tools tp w2 where
    s: "load_skills e aid agent (agent_datas w aid) ?w1 = (Inr (tools, tp), w2)"
    and w': "w' = compile_agent e aid agent tools tp w2"
    using initialize_agent_ok [OF assms(1,2), of e]
    by (auto split: sum.splits prod.splits)
  let ?g = "\<lparr>graph_aid = aid, graph_llm = fst (init_llm (config e) agent),
             graph_tools = (if startswith (model agent) ''deepseek'' then [] else dedup_tools tools),
             graph_prompt = prompt_array_of (config e) agent tp,
             graph_debug = debug_checkpoint (config e),
             graph_input_token_limit = snd (init_llm (config e) agent)\<rparr>"
  from load_skills_world [OF s] have w2: "agents w2 = agents w"
    "agents_updated w2 = (agents_updated w)(aid \<mapsto> updated_at agent)" by simp_all
  have "agents w' = (agents w2)(aid := agents w' aid)"
    using compile_agent_world [of e aid agent tools tp w2] by (simp add: w')
  then have "agents w' = (agents w)(aid \<mapsto> ?g)"
    by (simp add: w' w2 compile_agent_fields)
  moreover have "agents_updated w' = (agents_updated w)(aid \<mapsto> updated_at agent)"
    using compile_agent_world [of e aid agent tools tp w2] by (simp add: w' w2)
  ultimately show ?thesis by (intro exI [of _ ?g]) simp
qed

section \<open>Unfolding the concrete deployment\<close>

lemmas demo_defs = demo_world_def demo_env_def demo_config_def demo_agent_def demo_resolver_def demo_message_def

lemmas build_defs = initialize_agent_def fetch_agent_def get_config_def get_data_def load_skills_def
  load_cdp_def load_enso_def load_twitter_def load_crestal_def load_common_def load_skill_sets_def
  compile_agent_def init_llm_def dedup_tools_def tools_by_name_def put_tool_def dict_values_def
  truthy_list_def truthy_str_def startswith_def has_wallet_data_def cdp_values_of_def logger_def
  set_data_def resolve_enso_skill_def Let_def

lemmas exec_defs = execute_agent_def Agent_get_def needs_reinit_def cold_start_def
  run_executor_def debug_prompt_def

section \<open>Properties of the runtime cache\<close>

text \<open>
  One call of \<open>execute_agent\<close>, the configuration store holding a configuration for the
  identity. If the identity is in \<open>agents\<close> and \<open>agents_updated\<close> holds the
  configuration's current \<open>updated_at\<close>, the call is the run of the cached pipeline: no
  build is counted and both dictionaries are unchanged. Otherwise exactly one build is
  counted, and when that build returns the entry of \<open>agents\<close> is replaced by the
  pipeline the run then uses and \<open>agents_updated\<close> holds the \<open>updated_at\<close> the
  build fetched.
\<close>

lemma execute_agent_cache_step:
  assumes "store_error w = None" and "agent_configs w aid = Some agent"
  shows "(agents w aid = Some p \<and> agents_updated w aid = Some (updated_at agent) \<longrightarrow>
            execute_agent e aid m t dbg w
              = run_executor e agent p m t dbg ([seg_thread t, seg_input m], 1, 0) w
          \<and> builds (snd (execute_agent e aid m t dbg w)) = builds w
          \<and> agents (snd (execute_agent e aid m t dbg w)) = agents w
          \<and> agents_updated (snd (execute_agent e aid m t dbg w)) = agents_updated w)
       \<and> (agents w aid = None \<or> agents_updated w aid \<noteq> Some (updated_at agent) \<longrightarrow>
            builds (snd (execute_agent e aid m t dbg w)) = Suc (builds w)
          \<and> (fst (initialize_agent e aid
                     (if needs_reinit aid agent w then logger (reinit_msg aid) w else w))
                = Inr () \<longrightarrow>
               (\<exists>g. agents (snd (execute_agent e aid m t dbg w)) = (agents w)(aid \<mapsto> g)
                  \<and> graph_aid g = aid \<and> graph_llm g = fst (init_llm (config e) agent)
                  \<and> graph_input_token_limit g = snd (init_llm (config e) agent)
                  \<and> agents_updated (snd (execute_agent e aid m t dbg w))
                      = (agents_updated w)(aid \<mapsto> updated_at agent)
                  \<and> fst (execute_agent e aid m t dbg w)
                      = fst (run_executor e agent g m t dbg
                          ([seg_thread t, seg_input m,
                            if agents w aid = None then ''[ Agent cold start ... ]''
                            else ''[ Agent reinitialized ... ]'',
                            seg_start_cost e 1 0], 3, 2)
                          (snd (initialize_agent e aid
                             (if needs_reinit aid agent w then logger (reinit_msg aid) w
                              else w)))))))"
proof (intro conjI impI)
  let ?st = "([seg_thread t, seg_input m], 1::nat, 0::nat)"
  assume hit: "agents w aid = Some p \<and> agents_updated w aid = Some (updated_at agent)"
  with assms show eq: "execute_agent e aid m t dbg w = run_executor e agent p m t dbg ?st w"
    by (simp add: execute_agent_def Agent_get_def needs_reinit_def cold_start_def)
  show "builds (snd (execute_agent e aid m t dbg w)) = builds w"
    "agents (snd (execute_agent e aid m t dbg w)) = agents w"
    "agents_updated (snd (execute_agent e aid m t dbg w)) = agents_updated w"
    using run_executor_world [of e agent p m t dbg ?st w] by (simp_all only: eq)
next
  let ?w0 = "if needs_reinit aid agent w then logger (reinit_msg aid) w else w"
  let ?st = "([seg_thread t, seg_input m,
               if agents w aid = None then ''[ Agent cold start ... ]''
               else ''[ Agent reinitialized ... ]'',
               seg_start_cost e 1 0], 3::nat, 2::nat)"
  assume miss: "agents w aid = None \<or> agents_updated w aid \<noteq> Some (updated_at agent)"
  have w0: "store_error ?w0 = None" "agent_configs ?w0 aid = Some agent"
    "agents ?w0 = agents w" "agents_updated ?w0 = agents_updated w" "builds ?w0 = builds w"
    using assms by (simp_all add: logger_def)
  from miss have go: "agents w aid = None \<or> needs_reinit aid agent w"
    by (auto simp: needs_reinit_def)
  obtain r w1 where i: "initialize_agent e aid ?w0 = (r, w1)" by force
  have b: "builds w1 = Suc (builds w)"
    using initialize_agent_builds [of e aid ?w0] i w0 by simp
  have unfold: "execute_agent e aid m t dbg w =
      (case r of Inl ex \<Rightarrow> (Inl ex, w1)
       | Inr u \<Rightarrow> (case agents w1 aid of
                     None \<Rightarrow> (Inl (KeyError aid), w1)
                   | Some g \<Rightarrow> run_executor e agent g m t dbg ?st w1))"
    using assms go i w0(3)
    by (auto simp: execute_agent_def Agent_get_def cold_start_def Let_def split: sum.splits
             cong: option.case_cong)
  show "builds (snd (execute_agent e aid m t dbg w)) = Suc (builds w)"
    using b by (simp add: unfold run_executor_world split: sum.splits option.splits)
  assume ok: "fst (initialize_agent e aid ?w0) = Inr ()"
  with i have r: "r = Inr ()" by simp
  from initialize_agent_installs [OF w0(1,2), of e "()" w1] i r w0
  obtain g where g: "agents w1 = (agents w)(aid \<mapsto> g)"
      "agents_updated w1 = (agents_updated w)(aid \<mapsto> updated_at agent)"
      "graph_aid g = aid" "graph_llm g = fst (init_llm (config e) agent)"
      "graph_input_token_limit g = snd (init_llm (config e) agent)"
    by auto
  then have ex: "execute_agent e aid m t dbg w = run_executor e agent g m t dbg ?st w1"
    by (simp add: unfold r)
  show "\<exists>g. agents (snd (execute_agent e aid m t dbg w)) = (agents w)(aid \<mapsto> g)
          \<and> graph_aid g = aid \<and> graph_llm g = fst (init_llm (config e) agent)
          \<and> graph_input_token_limit g = snd (init_llm (config e) agent)
          \<and> agents_updated (snd (execute_agent e aid m t dbg w))
              = (agents_updated w)(aid \<mapsto> updated_at agent)
          \<and> fst (execute_agent e aid m t dbg w)
              = fst (run_executor e agent g m t dbg
                  ([seg_thread t, seg_input m,
                    if agents w aid = None then ''[ Agent cold start ... ]''
                    else ''[ Agent reinitialized ... ]'',
                    seg_start_cost e 1 0], 3, 2)
                  (snd (initialize_agent e aid ?w0)))"
    using g i by (intro exI [of _ g]) (simp add: ex run_executor_world)
qed

text \<open>
  The update time is recorded before the build has finished (line 123). A build that
  raises after the two reads therefore leaves the new time in \<open>agents_updated\<close> beside
  the pipeline it did not replace, and the staleness check of the next call finds
  nothing to rebuild.
\<close>

lemma failed_build_records_time:
  assumes "store_error w = None" and "agent_configs w aid = Some agent"
    and "initialize_agent e aid w = (Inl ex, w')"
  shows "agents w' = agents w \<and> agents_updated w' aid = Some (updated_at agent)"
proof -
  let ?w1 = "w\<lparr>builds := Suc (builds w),
               agents_updated := (agents_updated w)(aid \<mapsto> updated_at agent)\<rparr>"
  obtain r w2 where s: "load_skills e aid agent (agent_datas w aid) ?w1 = (r, w2)" by force
  from assms s have "w' = w2"
    using initialize_agent_ok [OF assms(1,2), of e]
    by (auto split: sum.splits prod.splits)
  with load_skills_world [OF s] show ?thesis by simp
qed

lemma stale_after_failed_build:
  assumes "store_error w = None" and "agent_configs w aid = Some agent"
    and "initialize_agent e aid w = (Inl ex, w')" and "agents w aid = Some p"
  shows "\<not> needs_reinit aid agent w' \<and> agents w' aid = Some p"
  using failed_build_records_time [OF assms(1-3)] assms(4)
  by (simp add: needs_reinit_def)

lemma world_built_v1_eq: "world_built_v1 =
   \<lparr>agents = [''a1'' \<mapsto> \<lparr>graph_aid = ''a1'', graph_llm = fst (init_llm demo_config demo_agent),
        graph_tools = [\<lparr>tool_name = ''clock'', tool_body = ''common''\<rparr>],
        graph_prompt = prompt_array_of demo_config demo_agent [],
        graph_debug = False, graph_input_token_limit = 120000\<rparr>],
     agents_updated = [''a1'' \<mapsto> 1],
     agent_configs = (\<lambda>k. if k = ''a1'' then Some demo_agent else None),
     agent_datas = Map.empty, store_error = None,
     log = [loaded_tool ''a1'' \<lparr>tool_name = ''clock'', tool_body = ''common''\<rparr>],
     builds = 1, set_data_calls = []\<rparr>"
  unfolding world_built_v1_def
  apply (simp add: demo_defs build_defs exec_defs)
  apply (simp add: fun_eq_iff demo_agent_def)
  done

lemma world_failed_rebuild_eq: "world_failed_rebuild =
   \<lparr>agents = [''a1'' \<mapsto> \<lparr>graph_aid = ''a1'', graph_llm = fst (init_llm demo_config demo_agent),
        graph_tools = [\<lparr>tool_name = ''clock'', tool_body = ''common''\<rparr>],
        graph_prompt = prompt_array_of demo_config demo_agent [],
        graph_debug = False, graph_input_token_limit = 120000\<rparr>],
     agents_updated = [''a1'' \<mapsto> 2],
     agent_configs = (\<lambda>k. if k = ''a1'' then Some demo_agent_v2 else None),
     agent_datas = Map.empty, store_error = None,
     log = [loaded_tool ''a1'' \<lparr>tool_name = ''clock'', tool_body = ''common''\<rparr>,
            reinit_msg ''a1''],
     builds = 2, set_data_calls = []\<rparr>"
  unfolding world_failed_rebuild_def world_config_v2_def world_built_v1_eq
  apply (simp add: demo_defs demo_agent_v2_def demo_outage_def build_defs exec_defs)
  apply (simp add: fun_eq_iff demo_agent_def demo_agent_v2_def)
  done

text \<open>
  Claim C1 fails on the code. The pipeline of \<open>a1\<close> is built from the configuration of
  time 1. The store then receives a configuration of time 2, and the next call, made
  while the common-skill resolver is down, rebuilds: the build raises, having recorded
  time 2 in \<open>agents_updated\<close> and left the pipeline of time 1 in \<open>agents\<close>. A
  further call, the resolver working again, finds the recorded time equal to the
  configuration's and performs no build: it answers from the pipeline built at time 1,
  which lacks the tool of the configuration of time 2, although a build would now
  return and store a pipeline with that tool.
\<close>

theorem stale_pipeline_after_failed_rebuild:
  "agents_updated world_built_v1 ''a1'' = Some 1
   \<and> map_option graph_tools (agents world_built_v1 ''a1'')
       = Some [\<lparr>tool_name = ''clock'', tool_body = ''common''\<rparr>]
   \<and> agent_configs world_config_v2 ''a1'' = Some demo_agent_v2
   \<and> updated_at demo_agent_v2 = 2
   \<and> fst (execute_agent demo_outage ''a1'' demo_message ''t1'' False world_config_v2)
       = Inl (OtherException ''skill service down'')
   \<and> builds world_failed_rebuild = 2
   \<and> agents_updated world_failed_rebuild ''a1'' = Some 2
   \<and> agents world_failed_rebuild ''a1'' = agents world_built_v1 ''a1''
   \<and> agent_configs world_failed_rebuild ''a1'' = Some demo_agent_v2
   \<and> execute_agent demo_env ''a1'' demo_message ''t1'' False world_failed_rebuild
       = (Inr [''four''], world_failed_rebuild)
   \<and> fst (initialize_agent demo_env ''a1'' world_failed_rebuild) = Inr ()
   \<and> map_option graph_tools
         (agents (snd (initialize_agent demo_env ''a1'' world_failed_rebuild)) ''a1'')
       = Some [\<lparr>tool_name = ''clock'', tool_body = ''common''\<rparr>,
               \<lparr>tool_name = ''search'', tool_body = ''common''\<rparr>]"
proof -
  have a: "fst (execute_agent demo_outage ''a1'' demo_message ''t1'' False world_config_v2)
       = Inl (OtherException ''skill service down'')"
    unfolding world_config_v2_def world_built_v1_eq
    by (simp add: demo_defs demo_agent_v2_def demo_outage_def build_defs exec_defs)
  have b: "execute_agent demo_env ''a1'' demo_message ''t1'' False world_failed_rebuild
       = (Inr [''four''], world_failed_rebuild)"
    unfolding world_failed_rebuild_eq
    by (simp add: demo_defs demo_agent_v2_def build_defs exec_defs)
  have c: "fst (initialize_agent demo_env ''a1'' world_failed_rebuild) = Inr ()"
    "map_option graph_tools
         (agents (snd (initialize_agent demo_env ''a1'' world_failed_rebuild)) ''a1'')
       = Some [\<lparr>tool_name = ''clock'', tool_body = ''common''\<rparr>,
               \<lparr>tool_name = ''search'', tool_body = ''common''\<rparr>]"
    unfolding world_failed_rebuild_eq
    by (simp_all add: demo_defs demo_agent_v2_def build_defs)
  have d: "agent_configs world_config_v2 ''a1'' = Some demo_agent_v2"
    by (simp add: world_config_v2_def)
  have e: "updated_at demo_agent_v2 = 2" by (simp add: demo_agent_v2_def)
  show ?thesis
    by (simp add: a b c d e) (simp add: world_built_v1_eq world_failed_rebuild_eq)
qed

section \<open>Properties of a build\<close>

lemma load_skills_twitter_prompt:
  assumes "load_skills e aid agent ad w = (Inr (tools, tp), w2)"
  shows "tp = (if truthy_list (twitter_skills agent) then twitter_prompt_of (the ad) else [])
       \<and> (truthy_list (twitter_skills agent) \<longrightarrow> ad \<noteq> None)"
proof -
  from assms obtain ts where "load_twitter e aid agent ad = Inr (ts, tp)"
    by (auto simp: load_skills_def split: prod.splits sum.splits)
  then show ?thesis
    by (auto simp: load_twitter_def Let_def split: if_splits sum.splits option.splits)
qed

lemma twitter_prompt_of_nonempty: "twitter_prompt_of d \<noteq> []"
  by (simp add: twitter_prompt_of_def)

lemma prompt_array_of_deepseek:
  "startswith (model agent) ''deepseek'' \<Longrightarrow>
   prompt_array_of cfg agent tp =
     (if truthy_str (prompt_append agent)
      then [(''system'', escape_braces (opt_str (prompt_append agent)))] else [])
     @ [(''system'', escape_braces (agent_prompt cfg agent)), (''placeholder'', ''{messages}'')]"
  by (simp add: prompt_array_of_def Let_def)

lemma prompt_array_of_other:
  "\<not> startswith (model agent) ''deepseek'' \<Longrightarrow>
   prompt_array_of cfg agent tp =
     [(''system'', escape_braces (agent_prompt cfg agent)), (''placeholder'', ''{messages}'')]
     @ (if tp \<noteq> [] then [(''system'', tp)] else [])
     @ (if truthy_str (prompt_append agent)
        then [(''system'', escape_braces (opt_str (prompt_append agent)))] else [])"
  by (simp add: prompt_array_of_def Let_def)

text \<open>
  Claim C6 as stated fails: not all of the rendered prompt is retained. On the concrete
  deployment the build of an agent with a Twitter skill renders the message about the
  agent's Twitter account; under the selector \<open>gpt-4o\<close> the pipeline's prompt array
  holds it, under \<open>deepseek-chat\<close> it does not, and the append suffix stands first
  instead of last.
\<close>

theorem twitter_prompt_dropped_counterexample:
  "fst (load_skills demo_env ''a1'' (demo_twitter_agent ''deepseek-chat'') (Some demo_data)
          (demo_twitter_world ''deepseek-chat''))
     = Inr ([\<lparr>tool_name = ''post_tweet'', tool_body = ''twitter''\<rparr>,
             \<lparr>tool_name = ''clock'', tool_body = ''common''\<rparr>],
            twitter_prompt_of demo_data)
   \<and> twitter_prompt_of demo_data \<noteq> []
   \<and> map_option graph_prompt
        (agents (snd (initialize_agent demo_env ''a1'' (demo_twitter_world ''deepseek-chat'')))
           ''a1'')
     = Some [(''system'', escape_braces ''Stay calm.''),
             (''system'', escape_braces (agent_prompt demo_config
                                           (demo_twitter_agent ''deepseek-chat''))),
             (''placeholder'', ''{messages}'')]
   \<and> map_option graph_prompt
        (agents (snd (initialize_agent demo_env ''a1'' (demo_twitter_world ''gpt-4o''))) ''a1'')
     = Some [(''system'', escape_braces (agent_prompt demo_config (demo_twitter_agent ''gpt-4o''))),
             (''placeholder'', ''{messages}''),
             (''system'', twitter_prompt_of demo_data),
             (''system'', escape_braces ''Stay calm.'')]"
proof -
  have ne: "twitter_prompt_of demo_data \<noteq> []" by (rule twitter_prompt_of_nonempty)
  show ?thesis
    using ne
    by (simp add: demo_defs demo_twitter_world_def demo_twitter_agent_def
          build_defs opt_str_def prompt_array_of_def)
qed

text \<open>
  Claim C6, amended. A build that returns for an agent whose model selector starts with
  \<open>deepseek\<close> stores a pipeline bound to \<open>https://api.deepseek.com\<close> with the DeepSeek
  key, an input token limit of 60000 and no tools, whatever tools were resolved. Its
  prompt array is the escaped append suffix, if the agent has one, then the escaped
  system prompt, then the placeholder of the messages: the system prompt and the suffix
  are retained, the suffix moved to the front, and the message about the Twitter account
  is left out. For every other selector the binding uses the default endpoint with the
  OpenAI key, the limit is 120000, and the prompt array is the system prompt, the
  placeholder, the Twitter message when Twitter skills are enabled, and the suffix.
\<close>

theorem deepseek_build:
  assumes "store_error w = None" and "agent_configs w aid = Some agent"
    and "initialize_agent e aid w = (Inr u, w')"
  shows "\<exists>g. agents w' aid = Some g
     \<and> (if startswith (model agent) ''deepseek''
        then llm_api_base (graph_llm g) = Some ''https://api.deepseek.com''
           \<and> llm_api_key (graph_llm g) = deepseek_api_key (config e)
           \<and> graph_input_token_limit g = 60000
           \<and> graph_tools g = []
           \<and> graph_prompt g =
               (if truthy_str (prompt_append agent)
                then [(''system'', escape_braces (opt_str (prompt_append agent)))] else [])
               @ [(''system'', escape_braces (agent_prompt (config e) agent)),
                  (''placeholder'', ''{messages}'')]
        else llm_api_base (graph_llm g) = None
           \<and> llm_api_key (graph_llm g) = openai_api_key (config e)
           \<and> graph_input_token_limit g = 120000
           \<and> graph_prompt g =
               [(''system'', escape_braces (agent_prompt (config e) agent)),
                (''placeholder'', ''{messages}'')]
               @ (if truthy_list (twitter_skills agent)
                  then [(''system'', twitter_prompt_of (the (agent_datas w aid)))] else [])
               @ (if truthy_str (prompt_append agent)
                  then [(''system'', escape_braces (opt_str (prompt_append agent)))] else []))"
proof -
  let ?w1 = "w\<lparr>builds := Suc (builds w),
               agents_updated := (agents_updated w)(aid \<mapsto> updated_at agent)\<rparr>"
  from assms obtain tools tp w2 where
    s: "load_skills e aid agent (agent_datas w aid) ?w1 = (Inr (tools, tp), w2)"
    and w': "w' = compile_agent e aid agent tools tp w2"
    using initialize_agent_ok [OF assms(1,2), of e]
    by (auto split: sum.splits prod.splits)
  note tp = load_skills_twitter_prompt [OF s]
  show ?thesis
  proof (cases "startswith (model agent) ''deepseek''")
    case True
    then show ?thesis
      by (simp add: w' compile_agent_fields init_llm_def prompt_array_of_deepseek)
  next
    case False
    then show ?thesis
      using tp twitter_prompt_of_nonempty
      by (simp add: w' compile_agent_fields init_llm_def prompt_array_of_other)
  qed
qed

text \<open>On the concrete deployment the Twitter skill and the common skill resolve, and the
  DeepSeek pipeline has no tool and a prompt array of three messages.\<close>

theorem deepseek_build_witness:
  "store_error (demo_twitter_world ''deepseek-chat'') = None
   \<and> agent_configs (demo_twitter_world ''deepseek-chat'') ''a1''
       = Some (demo_twitter_agent ''deepseek-chat'')
   \<and> fst (initialize_agent demo_env ''a1'' (demo_twitter_world ''deepseek-chat'')) = Inr ()
   \<and> startswith (model (demo_twitter_agent ''deepseek-chat'')) ''deepseek''
   \<and> map tool_name
        (fst (projr (fst (load_skills demo_env ''a1'' (demo_twitter_agent ''deepseek-chat'')
                            (Some demo_data) (demo_twitter_world ''deepseek-chat'')))))
       = [''post_tweet'', ''clock'']
   \<and> (\<exists>g. agents (snd (initialize_agent demo_env ''a1''
                (demo_twitter_world ''deepseek-chat''))) ''a1'' = Some g
        \<and> graph_tools g = [] \<and> graph_input_token_limit g = 60000
        \<and> llm_api_base (graph_llm g) = Some ''https://api.deepseek.com''
        \<and> llm_api_key (graph_llm g) = ''sk-deepseek''
        \<and> graph_prompt g
            = [(''system'', escape_braces ''Stay calm.''),
               (''system'', escape_braces (agent_prompt demo_config
                                             (demo_twitter_agent ''deepseek-chat''))),
               (''placeholder'', ''{messages}'')])"
  using deepseek_build
    [where w = "demo_twitter_world ''deepseek-chat''" and aid = "''a1''"
       and agent = "demo_twitter_agent ''deepseek-chat''" and e = demo_env and u = "()"
       and w' = "snd (initialize_agent demo_env ''a1'' (demo_twitter_world ''deepseek-chat''))"]
  by (simp add: demo_defs demo_twitter_world_def demo_twitter_agent_def demo_data_def
        build_defs opt_str_def)

text \<open>
  Claim C2 fails on the code: only the Enso skills are resolved inside a \<open>try\<close>. On
  the concrete deployment a common skill, a Twitter skill, a skill set or the CDP wrapper
  that raises ends the build with that exception; in the first case the world is shown
  in full: no pipeline is stored and no warning is logged.
\<close>

theorem capability_failure_aborts_build:
  "initialize_agent demo_env ''a1'' (demo_world (demo_agent\<lparr>common_skills := Some [''bad'']\<rparr>))
     = (Inl (OtherException ''unknown skill in common''),
        (demo_world (demo_agent\<lparr>common_skills := Some [''bad'']\<rparr>))
          \<lparr>agents_updated := [''a1'' \<mapsto> 1], builds := 1\<rparr>)
   \<and> fst (initialize_agent demo_env ''a1''
            (demo_world (demo_agent\<lparr>twitter_skills := Some [''bad'']\<rparr>)))
     = Inl (OtherException ''unknown skill in twitter'')
   \<and> fst (initialize_agent demo_env ''a1''
            (demo_world (demo_agent\<lparr>skill_sets := Some [(''bad'', [])]\<rparr>)))
     = Inl (OtherException ''unknown skill set'')
   \<and> fst (initialize_agent demo_env ''a1''
            (demo_world (demo_agent\<lparr>cdp_enabled := True, cdp_network_id := Some ''bad-net''\<rparr>)))
     = Inl (OtherException ''unsupported network'')"
  by (simp add: demo_defs build_defs)

text \<open>
  The sibling path: for the Enso capability every skill whose setup raises is logged as a
  warning and contributes no tool, the other skills contribute theirs in order, and
  whether the build returns or raises does not depend on the Enso resolver at all.
\<close>

lemma enso_setup_failure_skipped:
  "enso_loop e aid agent agentkit skills (tools, w) =
     (tools @ concat (map (\<lambda>skill. case resolve_enso_skill e aid agent agentkit skill of
                                      Inr s \<Rightarrow> [s] | Inl ex \<Rightarrow> []) skills),
      w\<lparr>log := log w @ concat (map (\<lambda>skill. case resolve_enso_skill e aid agent agentkit skill of
                                      Inr s \<Rightarrow> [] | Inl ex \<Rightarrow> [LogWarning ex]) skills)\<rparr>)
   \<and> fst (initialize_agent (e\<lparr>get_enso_skill := g\<rparr>) aid w0) = fst (initialize_agent e aid w0)"
proof
  show "enso_loop e aid agent agentkit skills (tools, w) =
     (tools @ concat (map (\<lambda>skill. case resolve_enso_skill e aid agent agentkit skill of
                                      Inr s \<Rightarrow> [s] | Inl ex \<Rightarrow> []) skills),
      w\<lparr>log := log w @ concat (map (\<lambda>skill. case resolve_enso_skill e aid agent agentkit skill of
                                      Inr s \<Rightarrow> [] | Inl ex \<Rightarrow> [LogWarning ex]) skills)\<rparr>)"
    by (rule enso_loop_spec)
next
  let ?e = "e\<lparr>get_enso_skill := g\<rparr>"
  have shape: "fst (initialize_agent x aid w0) =
      (case fetch_agent aid (w0\<lparr>builds := Suc (builds w0)\<rparr>) of
         (Inl ex, w1) \<Rightarrow> Inl ex
       | (Inr (agent, ad), w1) \<Rightarrow> map_sum id (\<lambda>_. ()) (fst (load_skills x aid agent ad w1)))" for x
    by (simp add: initialize_agent_def split: prod.splits sum.splits)
  show "fst (initialize_agent ?e aid w0) = fst (initialize_agent e aid w0)"
    by (simp only: shape load_skills_outcome)
qed

text \<open>On the concrete deployment the Enso skill \<open>bad\<close> is skipped with a warning and the
  build returns; it returns as well when every Enso skill fails.\<close>

lemma enso_setup_failure_skipped_demo:
  "fst (initialize_agent demo_env ''a1''
     (demo_world (demo_agent\<lparr>cdp_enabled := True, enso_skills := Some [''bad'', ''enso_get_tokens''],
                                enso_config := Some [(''api_token'', PStr ''tok'')]\<rparr>))) = Inr ()
   \<and> log (snd (initialize_agent demo_env ''a1''
     (demo_world (demo_agent\<lparr>cdp_enabled := True, enso_skills := Some [''bad'', ''enso_get_tokens''],
                                enso_config := Some [(''api_token'', PStr ''tok'')]\<rparr>))))
     = [LogWarning (OtherException ''unknown skill in enso''),
        loaded_tool ''a1'' \<lparr>tool_name = ''get_wallet_details'', tool_body = ''cdp''\<rparr>,
        loaded_tool ''a1'' \<lparr>tool_name = ''enso_get_tokens'', tool_body = ''enso''\<rparr>,
        loaded_tool ''a1'' \<lparr>tool_name = ''clock'', tool_body = ''common''\<rparr>]
   \<and> fst (initialize_agent
       (demo_env\<lparr>get_enso_skill := (\<lambda>skill api_token main_tokens wallet rpc aid.
                                        Inl (OtherException ''enso is down''))\<rparr>) ''a1''
     (demo_world (demo_agent\<lparr>cdp_enabled := True, enso_skills := Some [''bad'', ''enso_get_tokens''],
                                enso_config := Some [(''api_token'', PStr ''tok'')]\<rparr>))) = Inr ()"
  using enso_setup_failure_skipped
    [where e = demo_env and aid = "''a1''"
       and g = "\<lambda>skill api_token main_tokens wallet rpc aid. Inl (OtherException ''enso is down'')"
       and w0 = "demo_world (demo_agent\<lparr>cdp_enabled := True,
                   enso_skills := Some [''bad'', ''enso_get_tokens''],
                   enso_config := Some [(''api_token'', PStr ''tok'')]\<rparr>)"]
  by (simp add: demo_defs build_defs)

section \<open>Properties of the wallet persistence\<close>

lemma load_cdp_first_write:
  assumes "load_cdp e aid agent ad w = (Inr p, w1)" "cdp_enabled agent" "\<not> has_wallet_data ad"
  shows "\<exists>kit. CdpAgentkitWrapper_new e (cdp_values_of (config e) agent ad) = Inr kit
          \<and> w1 = set_data aid (export_wallet kit) w"
  using assms by (auto simp: load_cdp_def Let_def split: sum.splits)

lemma load_skills_Inr_cdp:
  assumes "load_skills e aid agent ad w = (Inr q, w2)"
  shows "\<exists>p w1. load_cdp e aid agent ad w = (Inr p, w1)"
  using assms by (auto simp: load_skills_def split: prod.splits sum.splits)

lemma stored_wallet_reused:
  assumes "has_wallet_data ad"
  shows "\<exists>d. ad = Some d \<and> v_cdp_wallet_data (cdp_values_of cfg agent ad) = data_cdp_wallet_data d
             \<and> truthy_str (data_cdp_wallet_data d)"
  using assms by (auto simp: has_wallet_data_def cdp_values_of_def split: option.splits)

lemma dedup_tools_name_set: "tool_name ` set (dedup_tools tools) = tool_name ` set tools"
proof -
  have "tool_name ` set (dedup_tools tools) = set (map tool_name (dedup_tools tools))" by simp
  also have "\<dots> = fst ` set (tools_by_name tools)" by (simp only: dedup_tools_names set_map)
  also have "\<dots> = tool_name ` set tools"
    using foldl_put_keys [of "[]" tools] by (simp add: tools_by_name_def)
  finally show ?thesis .
qed

lemma load_cdp_enabled:
  assumes "cdp_enabled agent"
  shows "load_cdp e aid agent ad w =
     (case CdpAgentkitWrapper_new e (cdp_values_of (config e) agent ad) of
        Inl ex \<Rightarrow> (Inl ex, w)
      | Inr kit \<Rightarrow>
          (Inr (Some kit,
                if truthy_list (cdp_skills agent)
                then filter (\<lambda>tool. tool_name tool \<in> set (the (cdp_skills agent)))
                       (toolkit_tools kit)
                else toolkit_tools kit),
           if \<not> has_wallet_data ad then set_data aid (export_wallet kit) w else w))"
  using assms by (simp add: load_cdp_def Let_def split: sum.splits)

lemma load_skills_cdp_fails:
  "load_cdp e aid agent ad w = (Inl ex, w1) \<Longrightarrow> load_skills e aid agent ad w = (Inl ex, w1)"
  by (simp add: load_skills_def)

lemma load_skills_cdp_tools:
  assumes "load_skills e aid agent ad w = (Inr (tools, tp), w2)"
    and "load_cdp e aid agent ad w = (Inr (k, cdp_tools), w1)"
  shows "set cdp_tools \<subseteq> set tools"
proof -
  obtain tools' w3 where l: "load_enso e aid agent k (cdp_tools, w1) = (tools', w3)" by force
  have sub: "set cdp_tools \<subseteq> set tools'"
    using l enso_loop_spec [of e aid agent k "the (enso_skills agent)" cdp_tools w1]
    by (cases "truthy_list (enso_skills agent) \<and> truthy_list (enso_config agent)")
       (auto simp: load_enso_def)
  from assms l obtain rest where "tools = tools' @ rest"
    by (auto simp: load_skills_def split: sum.splits prod.splits)
  with sub show ?thesis by auto
qed

text \<open>
  Claim C7. Take a build of an agent with the CDP capability enabled. The build
  constructs the wrapper from the values of \<open>cdp_values_of\<close>: when that construction
  raises, the build ends with its exception, and when the build returns, the
  construction has returned a wrapper whose tools (those named in \<open>cdp_skills\<close>, if
  any are named) are among the pipeline's by name, unless the selector is DeepSeek's. If
  the runtime data already holds wallet data, these values carry the stored wallet, and
  the build leaves the runtime-data store as it is and calls \<open>set_data\<close> not at all.
  If it holds none and the build returns, the wallet the wrapper exports has been
  written to the store by one call of \<open>set_data\<close>. Over any sequence of builds of
  the identity, whatever the configurations and outcomes, \<open>set_data\<close> is called at
  most once, provided \<open>export_wallet()\<close> never returns the empty string.
\<close>

theorem wallet_data_persisted_once:
  assumes "store_error w = None" and "agent_configs w aid = Some agent" and "cdp_enabled agent"
  shows "(has_wallet_data (agent_datas w aid) \<longrightarrow>
            agent_datas (snd (initialize_agent e aid w)) = agent_datas w
          \<and> set_data_calls (snd (initialize_agent e aid w)) = set_data_calls w
          \<and> (\<exists>d. agent_datas w aid = Some d
                \<and> v_cdp_wallet_data (cdp_values_of (config e) agent (agent_datas w aid))
                    = data_cdp_wallet_data d))
       \<and> (\<forall>ex. CdpAgentkitWrapper_new e (cdp_values_of (config e) agent (agent_datas w aid))
                  = Inl ex \<longrightarrow>
               initialize_agent e aid w
                 = (Inl ex, w\<lparr>builds := Suc (builds w),
                              agents_updated := (agents_updated w)(aid \<mapsto> updated_at agent)\<rparr>))
       \<and> (fst (initialize_agent e aid w) = Inr () \<longrightarrow>
            (\<exists>kit g. CdpAgentkitWrapper_new e
                        (cdp_values_of (config e) agent (agent_datas w aid)) = Inr kit
                \<and> agents (snd (initialize_agent e aid w)) aid = Some g
                \<and> (\<not> startswith (model agent) ''deepseek'' \<longrightarrow>
                     tool_name ` set (if truthy_list (cdp_skills agent)
                                      then filter (\<lambda>tool. tool_name tool \<in> set (the (cdp_skills agent)))
                                             (toolkit_tools kit)
                                      else toolkit_tools kit)
                       \<subseteq> tool_name ` set (graph_tools g))))
       \<and> (\<not> has_wallet_data (agent_datas w aid) \<and> fst (initialize_agent e aid w) = Inr () \<longrightarrow>
            (\<exists>kit d. CdpAgentkitWrapper_new e
                        (cdp_values_of (config e) agent (agent_datas w aid)) = Inr kit
                \<and> agent_datas (snd (initialize_agent e aid w)) aid = Some d
                \<and> data_cdp_wallet_data d = Some (export_wallet kit)
                \<and> set_data_calls (snd (initialize_agent e aid w))
                    = set_data_calls w @ [(aid, export_wallet kit)]))
       \<and> ((\<forall>v kit. CdpAgentkitWrapper_new e v = Inr kit \<longrightarrow> export_wallet kit \<noteq> []) \<longrightarrow>
            length (set_data_calls (rebuilds e aid configs w)) \<le> Suc (length (set_data_calls w)))"
proof (intro conjI impI allI)
  assume h: "has_wallet_data (agent_datas w aid)"
  from initialize_agent_keeps_wallet [OF h, of e]
  show "agent_datas (snd (initialize_agent e aid w)) = agent_datas w"
    and "set_data_calls (snd (initialize_agent e aid w)) = set_data_calls w" by simp_all
  from stored_wallet_reused [OF h, of "config e" agent]
  show "\<exists>d. agent_datas w aid = Some d
          \<and> v_cdp_wallet_data (cdp_values_of (config e) agent (agent_datas w aid))
              = data_cdp_wallet_data d" by blast
next
  fix ex
  let ?w1 = "w\<lparr>builds := Suc (builds w),
               agents_updated := (agents_updated w)(aid \<mapsto> updated_at agent)\<rparr>"
  assume "CdpAgentkitWrapper_new e (cdp_values_of (config e) agent (agent_datas w aid)) = Inl ex"
  then have "load_cdp e aid agent (agent_datas w aid) ?w1 = (Inl ex, ?w1)"
    by (simp add: load_cdp_enabled [OF assms(3)])
  then have "load_skills e aid agent (agent_datas w aid) ?w1 = (Inl ex, ?w1)"
    by (rule load_skills_cdp_fails)
  then show "initialize_agent e aid w = (Inl ex, ?w1)"
    by (simp add: initialize_agent_ok [OF assms(1,2)])
next
  let ?w1 = "w\<lparr>builds := Suc (builds w),
               agents_updated := (agents_updated w)(aid \<mapsto> updated_at agent)\<rparr>"
  let ?ad = "agent_datas w aid"
  let ?cdp = "\<lambda>kit. if truthy_list (cdp_skills agent)
                     then filter (\<lambda>tool. tool_name tool \<in> set (the (cdp_skills agent)))
                            (toolkit_tools kit)
                     else toolkit_tools kit"
  assume "fst (initialize_agent e aid w) = Inr ()"
  then obtain tools tp w2 where
    s: "load_skills e aid agent ?ad ?w1 = (Inr (tools, tp), w2)"
    and w': "snd (initialize_agent e aid w) = compile_agent e aid agent tools tp w2"
    using initialize_agent_ok [OF assms(1,2), of e]
    by (auto split: sum.splits prod.splits)
  from load_skills_Inr_cdp [OF s] obtain p wc where
    c: "load_cdp e aid agent ?ad ?w1 = (Inr p, wc)" by blast
  then obtain kit where
    kit: "CdpAgentkitWrapper_new e (cdp_values_of (config e) agent ?ad) = Inr kit"
    and p: "p = (Some kit, ?cdp kit)"
    by (auto simp: load_cdp_enabled [OF assms(3)] split: sum.splits)
  from load_skills_cdp_tools [OF s] c p have sub: "set (?cdp kit) \<subseteq> set tools" by simp
  let ?g = "the (agents (snd (initialize_agent e aid w)) aid)"
  have g: "agents (snd (initialize_agent e aid w)) aid = Some ?g"
    by (simp add: w' compile_agent_fields)
  have "\<not> startswith (model agent) ''deepseek'' \<longrightarrow>
          tool_name ` set (?cdp kit) \<subseteq> tool_name ` set (graph_tools ?g)"
    using sub by (auto simp: w' compile_agent_fields dedup_tools_name_set)
  with kit g
  show "\<exists>kit g. CdpAgentkitWrapper_new e (cdp_values_of (config e) agent ?ad) = Inr kit
          \<and> agents (snd (initialize_agent e aid w)) aid = Some g
          \<and> (\<not> startswith (model agent) ''deepseek'' \<longrightarrow>
               tool_name ` set (?cdp kit) \<subseteq> tool_name ` set (graph_tools g))"
    by blast
next
  assume a: "\<not> has_wallet_data (agent_datas w aid) \<and> fst (initialize_agent e aid w) = Inr ()"
  let ?w1 = "w\<lparr>builds := Suc (builds w),
               agents_updated := (agents_updated w)(aid \<mapsto> updated_at agent)\<rparr>"
  let ?ad = "agent_datas w aid"
  from a obtain tools tp w2 where
    s: "load_skills e aid agent ?ad ?w1 = (Inr (tools, tp), w2)"
    and w': "snd (initialize_agent e aid w) = compile_agent e aid agent tools tp w2"
    using initialize_agent_ok [OF assms(1,2), of e]
    by (auto split: sum.splits prod.splits)
  from load_skills_Inr_cdp [OF s] obtain p wc where
    c: "load_cdp e aid agent ?ad ?w1 = (Inr p, wc)" by blast
  from load_cdp_first_write [OF c assms(3)] a obtain kit where
    kit: "CdpAgentkitWrapper_new e (cdp_values_of (config e) agent ?ad) = Inr kit"
    and wc: "wc = set_data aid (export_wallet kit) ?w1" by blast
  from load_skills_data [OF s] c wc
  have w2: "agent_datas w2 = agent_datas (set_data aid (export_wallet kit) ?w1)"
    "set_data_calls w2 = set_data_calls (set_data aid (export_wallet kit) ?w1)" by simp_all
  have fin: "agent_datas (snd (initialize_agent e aid w)) = agent_datas w2"
    "set_data_calls (snd (initialize_agent e aid w)) = set_data_calls w2"
    using compile_agent_world [of e aid agent tools tp w2] by (simp_all add: w')
  show "\<exists>kit d. CdpAgentkitWrapper_new e (cdp_values_of (config e) agent ?ad) = Inr kit
          \<and> agent_datas (snd (initialize_agent e aid w)) aid = Some d
          \<and> data_cdp_wallet_data d = Some (export_wallet kit)
          \<and> set_data_calls (snd (initialize_agent e aid w))
              = set_data_calls w @ [(aid, export_wallet kit)]"
    using kit by (intro exI [of _ kit]) (simp add: fin w2 set_data_def split: option.splits)
next
  assume "\<forall>v kit. CdpAgentkitWrapper_new e v = Inr kit \<longrightarrow> export_wallet kit \<noteq> []"
  then show "length (set_data_calls (rebuilds e aid configs w)) \<le> Suc (length (set_data_calls w))"
    using rebuilds_at_most_one_write [of e aid configs w] by blast
qed

text \<open>On the concrete deployment: the first build writes the new wallet, a second build
  writes nothing and its pipeline holds the wrapper's tool, a build on a network the
  wrapper refuses ends with the wrapper's exception, and a sequence of builds writes
  once.\<close>

theorem wallet_data_persisted_once_witness:
  "cdp_enabled (demo_agent\<lparr>cdp_enabled := True\<rparr>)
   \<and> \<not> has_wallet_data (agent_datas (demo_world (demo_agent\<lparr>cdp_enabled := True\<rparr>)) ''a1'')
   \<and> fst (initialize_agent demo_env ''a1'' (demo_world (demo_agent\<lparr>cdp_enabled := True\<rparr>))) = Inr ()
   \<and> set_data_calls (snd (initialize_agent demo_env ''a1''
                            (demo_world (demo_agent\<lparr>cdp_enabled := True\<rparr>))))
       = [(''a1'', ''wallet:new'')]
   \<and> has_wallet_data (agent_datas (snd (initialize_agent demo_env ''a1''
                            (demo_world (demo_agent\<lparr>cdp_enabled := True\<rparr>)))) ''a1'')
   \<and> set_data_calls (snd (initialize_agent demo_env ''a1''
        (snd (initialize_agent demo_env ''a1'' (demo_world (demo_agent\<lparr>cdp_enabled := True\<rparr>))))))
       = [(''a1'', ''wallet:new'')]
   \<and> map_option (map tool_name \<circ> graph_tools) (agents (snd (initialize_agent demo_env ''a1''
        (snd (initialize_agent demo_env ''a1'' (demo_world (demo_agent\<lparr>cdp_enabled := True\<rparr>))))))
          ''a1'')
       = Some [''get_wallet_details'', ''clock'']
   \<and> fst (initialize_agent demo_env ''a1''
            (demo_world (demo_agent\<lparr>cdp_enabled := True, cdp_network_id := Some ''bad-net''\<rparr>)))
       = Inl (OtherException ''unsupported network'')
   \<and> length (set_data_calls (rebuilds demo_env ''a1''
        [demo_agent\<lparr>cdp_enabled := True\<rparr>, demo_agent\<lparr>cdp_enabled := True, updated_at := 2\<rparr>]
        (demo_world (demo_agent\<lparr>cdp_enabled := True\<rparr>)))) \<le> 1"
proof -
  have export: "\<forall>v kit. CdpAgentkitWrapper_new demo_env v = Inr kit \<longrightarrow> export_wallet kit \<noteq> []"
    by (auto simp: demo_env_def split: if_splits)
  show ?thesis
    using export
      wallet_data_persisted_once
        [where w = "demo_world (demo_agent\<lparr>cdp_enabled := True\<rparr>)" and aid = "''a1''"
           and agent = "demo_agent\<lparr>cdp_enabled := True\<rparr>" and e = demo_env
           and configs = "[demo_agent\<lparr>cdp_enabled := True\<rparr>,
                           demo_agent\<lparr>cdp_enabled := True, updated_at := 2\<rparr>]"]
      wallet_data_persisted_once
        [where w = "snd (initialize_agent demo_env ''a1''
                          (demo_world (demo_agent\<lparr>cdp_enabled := True\<rparr>)))" and aid = "''a1''"
           and agent = "demo_agent\<lparr>cdp_enabled := True\<rparr>" and e = demo_env]
    by (simp add: demo_defs build_defs)
qed

section \<open>Properties of the execution engine\<close>

lemmas seg_defs = seg_thread_def seg_input_def seg_start_cost_def seg_agent_cost_def
  seg_skill_cost_def seg_total_def

lemma stream_loop_env:
  "stream_loop (e\<lparr>aget_state := f\<rparr>) cs st = stream_loop e cs st"
proof (induction cs arbitrary: st)
  case Nil
  then show ?case by simp
next
  case (Cons c cs)
  obtain rd resp n l where st: "st = (rd, resp, n, l)" by (cases st) auto
  show ?case
  proof (cases c)
    case (Inl ex)
    then show ?thesis by simp
  next
    case (Inr ch)
    then show ?thesis
      by (simp add: st Cons.IH seg_agent_cost_def seg_skill_cost_def
               split: option.splits list.splits)
  qed
qed

lemma load_skills_env_aget:
  "load_skills (e\<lparr>aget_state := f\<rparr>) aid agent ad w = load_skills e aid agent ad w"
proof -
  let ?e = "e\<lparr>aget_state := f\<rparr>"
  have cdp: "load_cdp ?e aid agent ad w = load_cdp e aid agent ad w"
    by (simp add: load_cdp_def)
  have res: "resolve_enso_skill ?e aid agent kit skill = resolve_enso_skill e aid agent kit skill"
    for kit skill
    by (simp add: resolve_enso_skill_def cong: option.case_cong)
  have loop: "enso_loop ?e aid agent kit skills tw = enso_loop e aid agent kit skills tw"
    for kit skills tw
    by (cases tw) (simp add: enso_loop_spec res)
  have enso: "load_enso ?e aid agent kit tw = load_enso e aid agent kit tw" for kit tw
    by (simp add: load_enso_def loop)
  have tw: "load_twitter ?e aid agent ad = load_twitter e aid agent ad"
    by (simp add: load_twitter_def Let_def cong: sum.case_cong option.case_cong if_cong)
  have cr: "load_crestal ?e agent = load_crestal e agent"
    by (simp add: load_crestal_def)
  have co: "load_common ?e agent = load_common e agent"
    by (simp add: load_common_def)
  have ss: "load_skill_sets ?e agent = load_skill_sets e agent"
    by (simp add: load_skill_sets_def cong: sum.case_cong if_cong)
  show ?thesis
    unfolding load_skills_def cdp enso tw cr co ss by (rule refl)
qed

lemma initialize_agent_env_aget:
  "initialize_agent (e\<lparr>aget_state := f\<rparr>) aid w = initialize_agent e aid w"
proof -
  have comp: "compile_agent (e\<lparr>aget_state := f\<rparr>) aid agent tools tp w2
        = compile_agent e aid agent tools tp w2" for agent tools tp w2
    by (simp add: compile_agent_def)
  show ?thesis
    unfolding initialize_agent_def load_skills_env_aget comp by (rule refl)
qed


text \<open>The run of a pipeline whose snapshot cannot be read.\<close>

lemma run_executor_debug_shape:
  "fst (run_executor e agent g m t True (rd, n, l) w)
   = (case stream_loop e (astream e g (TextPart (msg_text m) # map ImageUrlPart (msg_images m)) t)
             (rd, [], n, l) of
        Inl x \<Rightarrow> Inl x
      | Inr (rd', resp, n', l') \<Rightarrow>
          Inr ((rd' @ [seg_total e n']) @ [fst (debug_prompt e agent g t w)]))"
  by (simp add: run_executor_def Let_def split: prod.splits sum.splits)

lemma run_executor_snapshot_fails:
  assumes "\<exists>ex. f g t = Inl ex"
  shows "fst (run_executor (e\<lparr>aget_state := f\<rparr>) agent g m t True st w)
         = (case fst (run_executor e agent g m t True st w) of
              Inl x \<Rightarrow> Inl x
            | Inr segs \<Rightarrow> Inr (butlast segs @ [[]]))"
proof -
  obtain rd n l where st: "st = (rd, n, l)" by (cases st) auto
  from assms obtain ex where ex: "f g t = Inl ex" by blast
  have total: "seg_total (e\<lparr>aget_state := f\<rparr>) k = seg_total e k" for k
    by (simp add: seg_total_def)
  have dp: "fst (debug_prompt (e\<lparr>aget_state := f\<rparr>) agent g t w) = []"
    by (simp add: debug_prompt_def ex)
  show ?thesis
    unfolding st run_executor_debug_shape
    by (simp add: stream_loop_env total dp butlast_append split: sum.splits prod.splits)
qed

text \<open>
  Claim C8. Take any debug-mode execution and replace the snapshot retrieval by one that
  raises for every pipeline on this thread. The call fails exactly when it failed
  before, and where it returned segments it returns the same segments with the last
  one, the debug block, empty. A normal-mode execution does not read the snapshot.
\<close>

theorem debug_snapshot_failure_tolerated:
  assumes "\<forall>g. \<exists>ex. f g t = Inl ex"
  shows "fst (execute_agent (e\<lparr>aget_state := f\<rparr>) aid m t True w)
         = (case fst (execute_agent e aid m t True w) of
              Inl x \<Rightarrow> Inl x
            | Inr segs \<Rightarrow> Inr (butlast segs @ [[]]))
       \<and> fst (execute_agent (e\<lparr>aget_state := f\<rparr>) aid m t False w)
         = fst (execute_agent e aid m t False w)"
proof -
  let ?e = "e\<lparr>aget_state := f\<rparr>"
  have cs: "cold_start ?e aid reinit rd w0 = cold_start e aid reinit rd w0" for reinit rd w0
    by (simp add: cold_start_def initialize_agent_env_aget seg_start_cost_def
             cong: prod.case_cong sum.case_cong)
  have run: "fst (run_executor ?e agent g m t True st w1)
         = (case fst (run_executor e agent g m t True st w1) of
              Inl x \<Rightarrow> Inl x
            | Inr segs \<Rightarrow> Inr (butlast segs @ [[]]))" for agent g st w1
    using assms by (intro run_executor_snapshot_fails) blast
  have total: "seg_total ?e k = seg_total e k" for k
    by (simp add: seg_total_def)
  have run': "fst (run_executor ?e agent g m t False st w1)
         = fst (run_executor e agent g m t False st w1)" for agent g st w1
    by (simp add: run_executor_def stream_loop_env total Let_def split: prod.splits sum.splits)
  show ?thesis
    by (simp add: execute_agent_def cs run run' Let_def split: sum.splits option.splits prod.splits)
qed

text \<open>On the concrete deployment: the trace of a cold start with a failing snapshot, and
  with an empty one.\<close>

theorem debug_snapshot_failure_tolerated_witness:
  "fst (execute_agent
          (demo_env\<lparr>aget_state := (\<lambda>g t. Inl (OtherException ''connection lost''))\<rparr>)
          ''a1'' demo_message ''t1'' True (demo_world demo_agent))
     = Inr [seg_thread ''t1'', seg_input demo_message, ''[ Agent cold start ... ]'',
            seg_start_cost demo_env 1 0,
            ''[ Agent is thinking ... ]'', seg_agent_cost demo_env 3 2,
            ''[ Skill running ... ]\<newline>'', ''4'', seg_skill_cost demo_env 5 4,
            ''[ Agent: ]\<newline>'', ''four'', seg_agent_cost demo_env 7 6,
            seg_total demo_env 9, []]
   \<and> fst (execute_agent (demo_env\<lparr>aget_state := (\<lambda>g t. Inr None)\<rparr>)
          ''a1'' demo_message ''t1'' True (demo_world demo_agent))
     = Inr [seg_thread ''t1'', seg_input demo_message, ''[ Agent cold start ... ]'',
            seg_start_cost demo_env 1 0,
            ''[ Agent is thinking ... ]'', seg_agent_cost demo_env 3 2,
            ''[ Skill running ... ]\<newline>'', ''4'', seg_skill_cost demo_env 5 4,
            ''[ Agent: ]\<newline>'', ''four'', seg_agent_cost demo_env 7 6,
            seg_total demo_env 9,
            ''\<newline>===================\<newline>\<newline>[ system ]\<newline>''
              @ agent_prompt demo_config demo_agent]"
  using debug_snapshot_failure_tolerated
    [where f = "\<lambda>g t. Inl (OtherException ''connection lost'')" and t = "''t1''"
       and e = "demo_env\<lparr>aget_state := (\<lambda>g t. Inr None)\<rparr>" and aid = "''a1''"
       and m = demo_message and w = "demo_world demo_agent"]
  by (simp add: demo_defs build_defs exec_defs seg_defs)

section \<open>Model turns without text\<close>









section \<open>Properties of the memory purge\<close>

lemma like_plain: "no_wildcard p \<Longrightarrow> like_match p t = (t = p)"
proof (induction p t rule: like_match.induct)
  case (1 t)
  then show ?case by simp
next
  case (2 p ps)
  then show ?case by (auto simp: no_wildcard_def)
next
  case (3 p ps c cs)
  then show ?case by (auto simp: no_wildcard_def)
qed

lemma like_percent: "like_match ''%'' t"
  by (induction t) auto

lemma like_plain_prefix:
  "no_wildcard p \<Longrightarrow> like_match (p @ ''%'') t = (take (length p) t = p)"
proof (induction p arbitrary: t)
  case Nil
  then show ?case by (simp add: like_percent)
next
  case (Cons a p)
  then have lit: "no_wildcard p" and a: "a \<noteq> CHR ''%''" "a \<noteq> CHR ''_''" "a \<noteq> CHR 0x5C"
    by (simp_all add: no_wildcard_def)
  show ?case
  proof (cases t)
    case Nil
    with a show ?thesis by simp
  next
    case (Cons c cs)
    with a Cons.IH [OF lit, of cs] show ?thesis by auto
  qed
qed



lemmas purge_defs = clean_agent_memory_def clean_skills_data_def AgentSkillData_clean_data_def
  ThreadSkillData_clean_data_def delete_checkpoints_def deletion_param_def delete_like_def
  session_exit_def strip_def is_space_def Let_def

lemmas db_defs = demo_db_def demo_rows_def

lemma clean_skills_data_checkpoints:
  assumes "clean_skills_data de agent_id tid d = (r, d1)"
  shows "checkpoints d1 = checkpoints d \<and> checkpoint_writes d1 = checkpoint_writes d
         \<and> checkpoint_blobs d1 = checkpoint_blobs d \<and> (\<not> commit_on_exit de \<longrightarrow> d1 = d)"
  using assms
  by (auto simp: clean_skills_data_def AgentSkillData_clean_data_def
        ThreadSkillData_clean_data_def session_exit_def split: option.splits if_splits)

lemma delete_checkpoints_Inr:
  assumes "delete_checkpoints de agent_id tid = Inr s"
  shows "s = (\<lambda>x. x\<lparr>checkpoints := delete_like (deletion_param agent_id tid) (checkpoints x),
                    checkpoint_writes := delete_like (deletion_param agent_id tid) (checkpoint_writes x),
                    checkpoint_blobs := delete_like (deletion_param agent_id tid) (checkpoint_blobs x)\<rparr>)"
  using assms by (auto simp: delete_checkpoints_def Let_def split: option.splits)

lemma no_wildcard_append: "no_wildcard (a @ b) = (no_wildcard a \<and> no_wildcard b)"
  by (auto simp: no_wildcard_def)

lemma like_deletion_param:
  assumes "no_wildcard agent_id" and "no_wildcard (strip tid)"
  shows "like_match (deletion_param agent_id tid) k = purge_key agent_id tid k"
proof (cases "strip tid = []")
  case True
  have "no_wildcard (agent_id @ ''-'')" using assms(1) by (simp add: no_wildcard_append) (simp add: no_wildcard_def)
  from like_plain_prefix [OF this, of k] True show ?thesis
    by (simp add: deletion_param_def purge_key_def startswith_def)
next
  case False
  have "no_wildcard (agent_id @ ''-'' @ strip tid)"
    using assms by (simp add: no_wildcard_append) (simp add: no_wildcard_def)
  from like_plain [OF this, of k] False show ?thesis
    by (simp add: deletion_param_def purge_key_def)
qed

lemma clean_skills_data_rows:
  assumes "clean_skills_data de agent_id tid d = (r, d1)"
  shows "set (thread_skill_data d1) \<subseteq> set (thread_skill_data d)
       \<and> (\<forall>x \<in> set (thread_skill_data d). x \<notin> set (thread_skill_data d1) \<longrightarrow>
             tsd_agent_id x = agent_id \<and> (tid \<noteq> [] \<longrightarrow> tsd_thread_id x = tid))
       \<and> set (agent_skill_data d1) \<subseteq> set (agent_skill_data d)
       \<and> (\<forall>x \<in> set (agent_skill_data d). x \<notin> set (agent_skill_data d1) \<longrightarrow>
             asd_agent_id x = agent_id)"
  using assms
  by (auto simp: clean_skills_data_def AgentSkillData_clean_data_def
        ThreadSkillData_clean_data_def session_exit_def split: option.splits if_splits)

lemma clean_agent_memory_Inr:
  assumes "clean_agent_memory de agent_id tid True clean_skills d = (Inr msg, d')"
  shows "\<exists>d1 r1. (if clean_skills then clean_skills_data de agent_id tid d else (Inr (), d)) = (r1, d1)
       \<and> d' = d1\<lparr>checkpoints := delete_like (deletion_param agent_id tid) (checkpoints d1),
                 checkpoint_writes := delete_like (deletion_param agent_id tid) (checkpoint_writes d1),
                 checkpoint_blobs := delete_like (deletion_param agent_id tid) (checkpoint_blobs d1)\<rparr>"
proof -
  obtain r1 d1 where s: "(if clean_skills then clean_skills_data de agent_id tid d
                          else (Inr (), d)) = (r1, d1)" by force
  from assms s obtain ss where ss: "delete_checkpoints de agent_id tid = Inr ss" and "d' = ss d1"
    by (auto simp: clean_agent_memory_def split: sum.splits option.splits if_splits)
  with delete_checkpoints_Inr [OF ss] s show ?thesis by auto
qed

text \<open>
  Claim C3 fails on the code, whichever way a session ends. The skill-data deletions run
  in sessions that \<open>clean_data\<close> opens itself and never commits. If leaving such a
  session publishes its statements, a purge whose last checkpoint deletion fails has
  already removed the skill rows; if it publishes nothing, a purge that succeeds has
  removed the checkpoint rows and no skill row.
\<close>

theorem purge_skill_deletions_outside_commit:
  "clean_agent_memory
     \<lparr>fails = (\<lambda>s. if s = DeleteCheckpointBlobs then Some ''deadlock'' else None),
      commit_on_exit = True\<rparr> ''A'' ''T1'' True True demo_db
     = (Inl (HTTPException 500 ''deadlock''),
        demo_db\<lparr>agent_skill_data := [\<lparr>asd_agent_id = ''B'', asd_skill = ''twitter'',
                                       asd_key = ''k'', asd_data = ''2''\<rparr>],
                thread_skill_data :=
                  [\<lparr>tsd_thread_id = ''T2'', tsd_skill = ''enso'', tsd_key = ''k'',
                    tsd_agent_id = ''A'', tsd_data = ''2''\<rparr>,
                   \<lparr>tsd_thread_id = ''T1'', tsd_skill = ''enso'', tsd_key = ''k'',
                    tsd_agent_id = ''B'', tsd_data = ''3''\<rparr>]\<rparr>)
   \<and> clean_agent_memory \<lparr>fails = (\<lambda>s. None), commit_on_exit = False\<rparr>
       ''A'' ''T1'' True True demo_db
     = (Inr ''Agent data cleaned up successfully.'',
        demo_db\<lparr>checkpoints := [\<lparr>thread_id = ''A-T2'', payload = ''p2''\<rparr>,
                                 \<lparr>thread_id = ''B-T1'', payload = ''p3''\<rparr>],
                checkpoint_writes := [\<lparr>thread_id = ''A-T2'', payload = ''p2''\<rparr>,
                                       \<lparr>thread_id = ''B-T1'', payload = ''p3''\<rparr>],
                checkpoint_blobs := [\<lparr>thread_id = ''A-T2'', payload = ''p2''\<rparr>,
                                      \<lparr>thread_id = ''B-T1'', payload = ''p3''\<rparr>]\<rparr>)"
  by (simp add: purge_defs db_defs)

text \<open>
  What the single commit of \<open>clean_agent_memory\<close> does cover: the deletions from the
  three checkpoint tables. When the call fails at any step none of the three tables has
  changed, and when it succeeds each of the three has lost the rows matching the
  pattern (none, without the conversation flag). When a session left without a commit
  publishes nothing, a failed call leaves all five tables as they were.
\<close>

lemma checkpoint_deletions_atomic:
  assumes "clean_agent_memory de agent_id tid clean_agent clean_skills d = (r, d')"
  shows "(case r of
            Inl ex \<Rightarrow>
              checkpoints d' = checkpoints d \<and> checkpoint_writes d' = checkpoint_writes d
              \<and> checkpoint_blobs d' = checkpoint_blobs d
          | Inr msg \<Rightarrow>
              (if clean_agent
               then checkpoints d' = delete_like (deletion_param agent_id tid) (checkpoints d)
                  \<and> checkpoint_writes d'
                      = delete_like (deletion_param agent_id tid) (checkpoint_writes d)
                  \<and> checkpoint_blobs d'
                      = delete_like (deletion_param agent_id tid) (checkpoint_blobs d)
               else checkpoints d' = checkpoints d \<and> checkpoint_writes d' = checkpoint_writes d
                  \<and> checkpoint_blobs d' = checkpoint_blobs d))
       \<and> (\<not> commit_on_exit de \<longrightarrow> (\<forall>ex. r = Inl ex \<longrightarrow> d' = d))"
proof (cases "\<not> clean_skills \<and> \<not> clean_agent")
  case True
  with assms show ?thesis by (auto simp: clean_agent_memory_def)
next
  case False
  obtain rs d1 where s: "(if clean_skills then clean_skills_data de agent_id tid d
                          else (Inr (), d)) = (rs, d1)" by force
  have d1: "checkpoints d1 = checkpoints d \<and> checkpoint_writes d1 = checkpoint_writes d
         \<and> checkpoint_blobs d1 = checkpoint_blobs d \<and> (\<not> commit_on_exit de \<longrightarrow> d1 = d)"
    using s clean_skills_data_checkpoints [of de agent_id tid d rs d1]
    by (cases clean_skills) auto
  show ?thesis
  proof (cases rs)
    case (Inl ex)
    with assms False s d1 show ?thesis by (auto simp: clean_agent_memory_def)
  next
    case (Inr u)
    show ?thesis
    proof (cases "if clean_agent then delete_checkpoints de agent_id tid else Inr (\<lambda>x. x)")
      case (Inl ex)
      with assms False s Inr d1 show ?thesis by (auto simp: clean_agent_memory_def)
    next
      case ses: (Inr ss)
      then have ss: "clean_agent \<longrightarrow> ss = (\<lambda>x. x\<lparr>checkpoints := delete_like (deletion_param agent_id tid) (checkpoints x),
                    checkpoint_writes := delete_like (deletion_param agent_id tid) (checkpoint_writes x),
                    checkpoint_blobs := delete_like (deletion_param agent_id tid) (checkpoint_blobs x)\<rparr>)"
        "\<not> clean_agent \<longrightarrow> ss = (\<lambda>x. x)"
        using delete_checkpoints_Inr [of de agent_id tid ss] by (auto split: if_splits)
      show ?thesis
      proof (cases "fails de Commit")
        case None
        with assms False s Inr ses ss d1 show ?thesis
          by (cases clean_agent) (auto simp: clean_agent_memory_def)
      next
        case (Some m)
        with assms False s Inr ses d1 show ?thesis
          by (cases clean_agent) (auto simp: clean_agent_memory_def)
      qed
    qed
  qed
qed

text \<open>A purge whose last checkpoint deletion fails, one whose commit fails, and one with
  neither flag.\<close>

lemma checkpoint_deletions_atomic_demo:
  "clean_agent_memory
     \<lparr>fails = (\<lambda>s. if s = DeleteCheckpointBlobs then Some ''deadlock'' else None),
      commit_on_exit = False\<rparr> ''A'' ''T1'' True True demo_db
     = (Inl (HTTPException 500 ''deadlock''), demo_db)
   \<and> checkpoints (snd (clean_agent_memory
     \<lparr>fails = (\<lambda>s. if s = Commit then Some ''connection closed'' else None),
      commit_on_exit = True\<rparr> ''A'' ''T1'' True True demo_db)) = demo_rows
   \<and> clean_agent_memory \<lparr>fails = (\<lambda>s. None), commit_on_exit = True\<rparr> ''A'' ''T1'' False False demo_db
     = (Inl (HTTPException 400 ''at least one of skills data or agent memory should be true.''),
        demo_db)"
  using checkpoint_deletions_atomic
    [where de = "\<lparr>fails = (\<lambda>s. if s = DeleteCheckpointBlobs then Some ''deadlock'' else None),
                   commit_on_exit = False\<rparr>"
       and agent_id = "''A''" and tid = "''T1''" and clean_agent = True and clean_skills = True
       and d = demo_db and r = "Inl (HTTPException 500 ''deadlock'')" and d' = demo_db]
  by (simp add: purge_defs db_defs)

text \<open>
  Claim C4 as stated fails. A thread id of white space only is non-empty, yet after
  \<open>strip\<close> the pattern is the prefix and the rows of every thread of the agent go;
  the pattern is matched with \<open>LIKE\<close>, so an underscore in the thread id or in the
  identity stands for any character and removes rows of other threads and agents.
\<close>

theorem purge_scope_counterexample:
  "checkpoints (snd (clean_agent_memory \<lparr>fails = (\<lambda>s. None), commit_on_exit = True\<rparr>
       ''A'' '' '' True False demo_db))
     = [\<lparr>thread_id = ''B-T1'', payload = ''p3''\<rparr>]
   \<and> checkpoints (snd (clean_agent_memory \<lparr>fails = (\<lambda>s. None), commit_on_exit = True\<rparr>
       ''A'' ''T_'' True False demo_db))
     = [\<lparr>thread_id = ''B-T1'', payload = ''p3''\<rparr>]
   \<and> checkpoints (snd (clean_agent_memory \<lparr>fails = (\<lambda>s. None), commit_on_exit = True\<rparr>
       ''_'' ''T1'' True False demo_db))
     = [\<lparr>thread_id = ''A-T2'', payload = ''p2''\<rparr>]"
  by (simp add: purge_defs db_defs)

text \<open>
  Claim C4, amended. Let the identity and the stripped thread id hold no metacharacter of
  \<open>LIKE\<close>. A purge with the conversation flag that succeeds removes from each of
  the three checkpoint tables exactly the rows whose key is \<open>identity-thread\<close> for
  the stripped thread id, or, when nothing is left of the thread id, exactly the rows
  whose key starts with \<open>identity-\<close>; it removes thread-scoped skill rows only of
  that identity and, when a thread id is given, only of that thread.
\<close>

theorem purge_scope:
  assumes "no_wildcard agent_id" and "no_wildcard (strip tid)"
    and "clean_agent_memory de agent_id tid True clean_skills d = (Inr msg, d')"
  shows "checkpoints d' = filter (\<lambda>r. \<not> purge_key agent_id tid (thread_id r)) (checkpoints d)
       \<and> checkpoint_writes d'
           = filter (\<lambda>r. \<not> purge_key agent_id tid (thread_id r)) (checkpoint_writes d)
       \<and> checkpoint_blobs d'
           = filter (\<lambda>r. \<not> purge_key agent_id tid (thread_id r)) (checkpoint_blobs d)
       \<and> set (thread_skill_data d') \<subseteq> set (thread_skill_data d)
       \<and> (\<forall>x \<in> set (thread_skill_data d). x \<notin> set (thread_skill_data d') \<longrightarrow>
             tsd_agent_id x = agent_id \<and> (tid \<noteq> [] \<longrightarrow> tsd_thread_id x = tid))"
proof -
  from clean_agent_memory_Inr [OF assms(3)] obtain d1 r1 where
    s: "(if clean_skills then clean_skills_data de agent_id tid d else (Inr (), d)) = (r1, d1)"
    and d': "d' = d1\<lparr>checkpoints := delete_like (deletion_param agent_id tid) (checkpoints d1),
                 checkpoint_writes := delete_like (deletion_param agent_id tid) (checkpoint_writes d1),
                 checkpoint_blobs := delete_like (deletion_param agent_id tid) (checkpoint_blobs d1)\<rparr>"
    by blast
  have ck: "checkpoints d1 = checkpoints d \<and> checkpoint_writes d1 = checkpoint_writes d
         \<and> checkpoint_blobs d1 = checkpoint_blobs d"
    using s clean_skills_data_checkpoints [of de agent_id tid d r1 d1]
    by (cases clean_skills) auto
  have rows: "set (thread_skill_data d1) \<subseteq> set (thread_skill_data d)
       \<and> (\<forall>x \<in> set (thread_skill_data d). x \<notin> set (thread_skill_data d1) \<longrightarrow>
             tsd_agent_id x = agent_id \<and> (tid \<noteq> [] \<longrightarrow> tsd_thread_id x = tid))"
    using s clean_skills_data_rows [of de agent_id tid d r1 d1]
    by (cases clean_skills) auto
  have del: "delete_like (deletion_param agent_id tid) rows
             = filter (\<lambda>r. \<not> purge_key agent_id tid (thread_id r)) rows" for rows
    by (simp add: delete_like_def like_deletion_param [OF assms(1,2)])
  from ck rows show ?thesis by (simp add: d' del)
qed

text \<open>The purge of thread \<open>T1\<close> of agent \<open>A\<close> on the tables above, and the purge of all
  threads of \<open>A\<close>.\<close>

theorem purge_scope_witness:
  "no_wildcard ''A'' \<and> no_wildcard (strip ''T1'')
   \<and> clean_agent_memory \<lparr>fails = (\<lambda>s. None), commit_on_exit = True\<rparr> ''A'' ''T1'' True True demo_db
     = (Inr ''Agent data cleaned up successfully.'',
        \<lparr>agent_skill_data =
           [\<lparr>asd_agent_id = ''B'', asd_skill = ''twitter'', asd_key = ''k'', asd_data = ''2''\<rparr>],
         thread_skill_data =
           [\<lparr>tsd_thread_id = ''T2'', tsd_skill = ''enso'', tsd_key = ''k'', tsd_agent_id = ''A'',
             tsd_data = ''2''\<rparr>,
            \<lparr>tsd_thread_id = ''T1'', tsd_skill = ''enso'', tsd_key = ''k'', tsd_agent_id = ''B'',
             tsd_data = ''3''\<rparr>],
         checkpoints = [\<lparr>thread_id = ''A-T2'', payload = ''p2''\<rparr>,
                        \<lparr>thread_id = ''B-T1'', payload = ''p3''\<rparr>],
         checkpoint_writes = [\<lparr>thread_id = ''A-T2'', payload = ''p2''\<rparr>,
                              \<lparr>thread_id = ''B-T1'', payload = ''p3''\<rparr>],
         checkpoint_blobs = [\<lparr>thread_id = ''A-T2'', payload = ''p2''\<rparr>,
                             \<lparr>thread_id = ''B-T1'', payload = ''p3''\<rparr>]\<rparr>)
   \<and> checkpoints (snd (clean_agent_memory \<lparr>fails = (\<lambda>s. None), commit_on_exit = True\<rparr>
        ''A'' [] True False demo_db))
     = [\<lparr>thread_id = ''B-T1'', payload = ''p3''\<rparr>]"
  using purge_scope
    [where agent_id = "''A''" and tid = "''T1''" and clean_skills = True and d = demo_db
       and de = "\<lparr>fails = (\<lambda>s. None), commit_on_exit = True\<rparr>"
       and msg = "''Agent data cleaned up successfully.''"
       and d' = "snd (clean_agent_memory \<lparr>fails = (\<lambda>s. None), commit_on_exit = True\<rparr>
                        ''A'' ''T1'' True True demo_db)"]
  by (simp add: purge_defs db_defs no_wildcard_def)

end
